theory Spec2Isabelle
  imports Complex_Main
begin

section \<open>Values of the program\<close>

text \<open>
  The backend (\<^verbatim>\<open>src/backend/main.py\<close>) moves the output of \<^verbatim>\<open>json.loads\<close> around:
  dictionaries, lists, strings, integers, floats, booleans and \<^verbatim>\<open>None\<close>.
  A Python float is kept by its exact value when it is finite; Python integers are
  unbounded. A dictionary is an association list read with \<open>map_of\<close>.
\<close>

datatype pyfloat = Finite rat | PosInf | NegInf | NaN

datatype json =
    JNull
  | JBool bool
  | JInt int
  | JFloat pyfloat
  | JStr string
  | JList "json list"
  | JDict "(string \<times> json) list"

text \<open>The exceptions the modelled code can raise, its libraries' and the store's included.
  \<open>HTTPException n\<close> carries the status code.\<close>

datatype py_error =
    AttributeError
  | TypeError
  | KeyError
  | IndexError
  | ValueError
  | OverflowError
  | JSONDecodeError
  | GatewayError
  | ImageError
  | ValidationError
  | IntegrityError
  | DataError
  | ProgrammingError
  | PendingRollbackError
  | HTTPException nat

subsection \<open>The Python operations the code applies to these values\<close>

text \<open>\<^verbatim>\<open>not x\<close> is the negation of the truth value of \<open>x\<close>.\<close>

fun py_truthy :: "json \<Rightarrow> bool" where
  "py_truthy JNull = False"
| "py_truthy (JBool b) = b"
| "py_truthy (JInt n) = (n \<noteq> 0)"
| "py_truthy (JFloat f) = (f \<noteq> Finite 0)"
| "py_truthy (JStr s) = (s \<noteq> [])"
| "py_truthy (JList xs) = (xs \<noteq> [])"
| "py_truthy (JDict kvs) = (kvs \<noteq> [])"

text \<open>\<^verbatim>\<open>for item in x\<close>: a list gives its elements, a dictionary its keys, a string its
  characters; the other values are not iterable.\<close>

fun py_iter :: "json \<Rightarrow> py_error + json list" where
  "py_iter (JList xs) = Inr xs"
| "py_iter (JDict kvs) = Inr (map JStr (remdups (map fst kvs)))"
| "py_iter (JStr s) = Inr (map (\<lambda>c. JStr [c]) s)"
| "py_iter _ = Inl TypeError"

fun str_contains :: "string \<Rightarrow> string \<Rightarrow> bool" where
  "str_contains p [] = (p = [])"
| "str_contains p (c # cs) = (take (length p) (c # cs) = p \<or> str_contains p cs)"

text \<open>\<^verbatim>\<open>k in x\<close> for a string \<open>k\<close>: key membership in a dictionary, element membership in
  a list, substring test in a string, \<^verbatim>\<open>TypeError\<close> otherwise.\<close>

fun py_in :: "string \<Rightarrow> json \<Rightarrow> py_error + bool" where
  "py_in k (JDict kvs) = Inr (map_of kvs k \<noteq> None)"
| "py_in k (JList xs) = Inr (JStr k \<in> set xs)"
| "py_in k (JStr s) = Inr (str_contains k s)"
| "py_in k _ = Inl TypeError"

text \<open>\<^verbatim>\<open>x.get(k, d)\<close>: only a dictionary has the method.\<close>

fun py_get :: "json \<Rightarrow> string \<Rightarrow> json \<Rightarrow> py_error + json" where
  "py_get (JDict kvs) k d = Inr (case map_of kvs k of None \<Rightarrow> d | Some v \<Rightarrow> v)"
| "py_get _ k d = Inl AttributeError"

text \<open>\<^verbatim>\<open>x[k]\<close> for a string \<open>k\<close>: \<^verbatim>\<open>KeyError\<close> on a dictionary without the key,
  \<^verbatim>\<open>TypeError\<close> on every other value.\<close>

fun py_index :: "json \<Rightarrow> string \<Rightarrow> py_error + json" where
  "py_index (JDict kvs) k = (case map_of kvs k of None \<Rightarrow> Inl KeyError | Some v \<Rightarrow> Inr v)"
| "py_index _ k = Inl TypeError"

subsection \<open>The builtin \<^verbatim>\<open>float\<close>\<close>

fun bit_length :: "nat \<Rightarrow> nat" where
  "bit_length n = (if n = 0 then 0 else Suc (bit_length (n div 2)))"

declare bit_length.simps [simp del]

text \<open>
  An integer becomes the nearest double (53 bits of mantissa, ties to the even
  mantissa); \<^verbatim>\<open>OverflowError\<close> when that would be \<open>2 ^ 1024\<close> or more.
\<close>

definition float_of_int :: "int \<Rightarrow> py_error + pyfloat" where
  "float_of_int n =
     (let a = nat \<bar>n\<bar>;
          e = bit_length a - 53;
          q = a div 2 ^ e;
          r = a mod 2 ^ e;
          q' = (if 2 ^ e < 2 * r \<or> (2 * r = 2 ^ e \<and> odd q) then q + 1 else q);
          m = q' * 2 ^ e
      in if 2 ^ 1024 \<le> m then Inl OverflowError
         else Inr (Finite (of_int (sgn n * int m))))"

text \<open>
  \<^verbatim>\<open>float(x)\<close>. Parsing a string is the library's; it is the parameter \<open>parse\<close>.
\<close>

fun py_float :: "(string \<Rightarrow> py_error + pyfloat) \<Rightarrow> json \<Rightarrow> py_error + pyfloat" where
  "py_float parse JNull = Inl TypeError"
| "py_float parse (JBool b) = Inr (Finite (if b then 1 else 0))"
| "py_float parse (JInt n) = float_of_int n"
| "py_float parse (JFloat f) = Inr f"
| "py_float parse (JStr s) = parse s"
| "py_float parse (JList xs) = Inl TypeError"
| "py_float parse (JDict kvs) = Inl TypeError"

subsection \<open>\<^verbatim>\<open>hexdigest\<close>\<close>

text \<open>The 64 lowercase hexadecimal digits of a 256-bit digest.\<close>

definition hex_digit :: "nat \<Rightarrow> char" where
  "hex_digit d = ''0123456789abcdef'' ! (d mod 16)"

fun hex :: "nat \<Rightarrow> nat \<Rightarrow> string" where
  "hex 0 n = []"
| "hex (Suc k) n = hex k (n div 16) @ [hex_digit n]"

definition hexdigest :: "nat \<Rightarrow> string" where
  "hexdigest n = hex 64 n"

section \<open>External collaborators and the state of the world\<close>

text \<open>An image as \<^verbatim>\<open>PIL.Image.open\<close> returns it, named by the bytes it was decoded from.\<close>

datatype image = Image string

text \<open>
  What is sent to the Model Gateway. The instructions of both prompts are constants of
  the source; the first prompt varies in the image, the second in the initial insights
  (\<^verbatim>\<open>json.dumps(initial_insights)\<close>) and in the historical data (\<^verbatim>\<open>r.category\<close> and
  \<^verbatim>\<open>float(r.value)\<close> of every row the lookup returned).
\<close>

datatype gprompt =
    ExtractionPrompt image
  | ValidationPrompt json "(string \<times> pyfloat) list"

text \<open>
  The library functions and services the code calls, as parameters:
  \<^item> \<open>generate_content\<close> is the Gateway call together with reading \<^verbatim>\<open>response.text\<close>;
  \<^item> \<open>sha256_of_str dp\<close> is the digest \<^verbatim>\<open>hashlib.sha256(str(dp).encode())\<close>, as a
    number;
  \<^item> \<open>store_numeric f\<close> is what the \<^verbatim>\<open>Numeric\<close> column does with the float \<open>f\<close>: the
    store refuses it (an infinity, on some versions), or keeps a decimal, and the result is
    the float that \<^verbatim>\<open>float(r.value)\<close> later reads from the row;
  \<^item> \<open>adapt_category c\<close> is what the driver and the store make, at the insert, of a
    category \<open>c\<close> that is neither a string nor \<^verbatim>\<open>None\<close>: the text stored, or the
    exception raised.
\<close>

record env =
  generate_content :: "gprompt \<Rightarrow> py_error + string"
  json_loads :: "string \<Rightarrow> py_error + json"
  float_of_str :: "string \<Rightarrow> py_error + pyfloat"
  sha256_of_str :: "json \<Rightarrow> nat"
  image_open :: "string \<Rightarrow> py_error + image"
  b64decode :: "string \<Rightarrow> py_error + string"
  isoformat :: "nat \<Rightarrow> string"
  store_numeric :: "pyfloat \<Rightarrow> py_error + pyfloat"
  adapt_category :: "json \<Rightarrow> py_error + string"

text \<open>
  \<^verbatim>\<open>class GraphDataHistory(Base)\<close>, a row of the table \<^verbatim>\<open>graph_data_history\<close>:
  \<^verbatim>\<open>id\<close> (primary key), \<^verbatim>\<open>metric_name\<close> and \<^verbatim>\<open>category\<close> (\<^verbatim>\<open>String(255)\<close>, not null),
  \<^verbatim>\<open>value\<close> (\<^verbatim>\<open>Numeric\<close>, not null; kept here as the float \<^verbatim>\<open>float(r.value)\<close> reads),
  \<^verbatim>\<open>extracted_at\<close> (set by the default \<^verbatim>\<open>func.now()\<close>, since the code never sets it) and
  \<^verbatim>\<open>source_graph_hash\<close> (\<^verbatim>\<open>String(64)\<close>). A string is a list of characters, and the
  length of a column counts them.
\<close>

record GraphDataHistory =
  id' :: nat
  metric_name :: string
  category :: string
  value' :: pyfloat
  extracted_at :: nat
  source_graph_hash :: string

text \<open>
  An instance as the constructor call of line 172 leaves it, before any insert: its
  attributes hold the Python values they were given, whatever their type; the column
  types are enforced by the store when the instance is inserted.
\<close>

record new_instance =
  new_metric_name :: string
  new_category :: json
  new_value :: pyfloat
  new_source_graph_hash :: string

text \<open>What the code does to its collaborators, in order.\<close>

datatype event =
    GenerateContent gprompt
  | DbQuery string "json list"
  | DbHistoryQuery
  | DbAdd new_instance
  | DbCommit
  | DbRollback py_error
  | Print py_error

text \<open>
  The table in insertion order, the next surrogate key, the store's clock, the pending
  instances of the request's session, whether the session's transaction was rolled back
  by a failed insert (the session is then unusable until \<^verbatim>\<open>rollback()\<close>, which the
  code never calls), and the trace.
\<close>

record world =
  table :: "GraphDataHistory list"
  next_id :: nat
  clock :: nat
  session :: "new_instance list"
  inactive :: bool
  events :: "event list"

definition log_event :: "event \<Rightarrow> world \<Rightarrow> world" where
  "log_event ev w = w\<lparr>events := events w @ [ev]\<rparr>"

text \<open>The driver refuses a string that contains the character NUL (\<^verbatim>\<open>ValueError\<close>).\<close>

definition has_nul :: "string \<Rightarrow> bool" where
  "has_nul s = (CHR 0x00 \<in> set s)"

fun nul_string :: "json \<Rightarrow> bool" where
  "nul_string (JStr s) = has_nul s"
| "nul_string _ = False"

text \<open>A value the driver passes to a string column or compares with one as it is.\<close>

fun str_or_none :: "json \<Rightarrow> bool" where
  "str_or_none (JStr s) = True"
| "str_or_none JNull = True"
| "str_or_none _ = False"

text \<open>
  \<^verbatim>\<open>db_session.query(GraphDataHistory).filter(metric_name == m, category.in_(cs)).all()\<close>.
  The statement compares the string column with every element of \<open>cs\<close>: the driver
  refuses a string with a NUL, the store refuses an element that is neither a string nor
  \<^verbatim>\<open>None\<close> (there is no such comparison), and \<^verbatim>\<open>None\<close> matches no row.
\<close>

definition db_query ::
    "string \<Rightarrow> json list \<Rightarrow> world \<Rightarrow> (py_error + GraphDataHistory list) \<times> world" where
  "db_query metric categories w =
     (if inactive w then Inl PendingRollbackError
      else if list_ex nul_string categories then Inl ValueError
      else if \<not> list_all str_or_none categories then Inl ProgrammingError
      else Inr (filter (\<lambda>r. metric_name r = metric \<and> JStr (category r) \<in> set categories) (table w)),
      log_event (DbQuery metric categories) w)"

text \<open>\<^verbatim>\<open>db_session.add(db_record)\<close>\<close>

definition db_add :: "new_instance \<Rightarrow> world \<Rightarrow> world" where
  "db_add r w = log_event (DbAdd r) (w\<lparr>session := session w @ [r]\<rparr>)"

text \<open>
  The text a string column of width \<open>n\<close> takes: the driver refuses a string with a NUL,
  the store one that is too long (\<^verbatim>\<open>DataError\<close>).
\<close>

definition varchar :: "nat \<Rightarrow> string \<Rightarrow> py_error + string" where
  "varchar n s =
     (if has_nul s then Inl ValueError else if n < length s then Inl DataError else Inr s)"

text \<open>
  The category column at the insert: a string is checked against the width,
  \<^verbatim>\<open>None\<close> becomes NULL, which the column refuses (\<^verbatim>\<open>IntegrityError\<close>), any other value is
  left to \<open>adapt_category\<close>.
\<close>

definition category_column :: "env \<Rightarrow> json \<Rightarrow> py_error + string" where
  "category_column E c =
     (case c of
        JStr s \<Rightarrow> varchar 255 s
      | JNull \<Rightarrow> Inl IntegrityError
      | _ \<Rightarrow> (case adapt_category E c of Inl e \<Rightarrow> Inl e | Inr s \<Rightarrow> varchar 255 s))"

text \<open>The insert of one instance with key \<open>i\<close> at time \<open>now\<close>: the row, or the exception of
  the first column that refuses its value.\<close>

definition insert_instance :: "env \<Rightarrow> nat \<Rightarrow> nat \<Rightarrow> new_instance \<Rightarrow> py_error + GraphDataHistory" where
  "insert_instance E now i p =
     (case varchar 255 (new_metric_name p) of
        Inl e \<Rightarrow> Inl e
      | Inr m \<Rightarrow>
          (case category_column E (new_category p) of
             Inl e \<Rightarrow> Inl e
           | Inr c \<Rightarrow>
               (case store_numeric E (new_value p) of
                  Inl e \<Rightarrow> Inl e
                | Inr v \<Rightarrow>
                    (case varchar 64 (new_source_graph_hash p) of
                       Inl e \<Rightarrow> Inl e
                     | Inr h \<Rightarrow>
                         Inr \<lparr>id' = i, metric_name = m, category = c, value' = v,
                              extracted_at = now, source_graph_hash = h\<rparr>))))"

text \<open>The pending instances are inserted in the order they were added, with consecutive
  keys and one timestamp; the first refusal ends the flush.\<close>

fun insert_all :: "env \<Rightarrow> nat \<Rightarrow> nat \<Rightarrow> new_instance list \<Rightarrow> py_error + GraphDataHistory list" where
  "insert_all E now i [] = Inr []"
| "insert_all E now i (p # ps) =
     (case insert_instance E now i p of
        Inl e \<Rightarrow> Inl e
      | Inr r \<Rightarrow>
          (case insert_all E now (Suc i) ps of
             Inl e \<Rightarrow> Inl e
           | Inr rs \<Rightarrow> Inr (r # rs)))"

text \<open>
  \<^verbatim>\<open>db_session.commit()\<close>: the pending instances become rows, all or none. A refused
  insert rolls the transaction back: nothing is written, the pending instances are
  dropped, and the session stays unusable. Of several refused values the exception of the
  first is reported, in the order of the instances and of the columns. (Keys a failed
  insert may have used up are not modelled.)
\<close>

definition db_commit :: "env \<Rightarrow> world \<Rightarrow> (py_error + unit) \<times> world" where
  "db_commit E w =
     (if inactive w then (Inl PendingRollbackError, w)
      else
        (case insert_all E (clock w) (next_id w) (session w) of
           Inl e \<Rightarrow> (Inl e, log_event (DbRollback e) (w\<lparr>session := [], inactive := True\<rparr>))
         | Inr rows \<Rightarrow>
             (Inr (),
              log_event DbCommit
                (w\<lparr>table := table w @ rows,
                   next_id := next_id w + length rows,
                   session := []\<rparr>))))"

text \<open>\<^verbatim>\<open>get_db\<close>: a fresh session for the request, closed on every exit path.\<close>

definition open_session :: "world \<Rightarrow> world" where
  "open_session w = w\<lparr>session := [], inactive := False\<rparr>"

definition close_session :: "'a \<times> world \<Rightarrow> 'a \<times> world" where
  "close_session rw = (fst rw, (snd rw)\<lparr>session := [], inactive := False\<rparr>)"

section \<open>The persistence helper\<close>

text \<open>\<^verbatim>\<open>'category' in data_point and 'value' in data_point\<close>, left to right.\<close>

definition has_category_and_value :: "json \<Rightarrow> py_error + bool" where
  "has_category_and_value data_point =
     (case py_in ''category'' data_point of
        Inl e \<Rightarrow> Inl e
      | Inr b \<Rightarrow> if b then py_in ''value'' data_point else Inr False)"

text \<open>
  \<^verbatim>\<open>GraphDataHistory(metric_name=..., category=data_point['category'],
  value=float(data_point['value']), source_graph_hash=...hexdigest()[:64])\<close>,
  the arguments evaluated in this order.
\<close>

definition new_record :: "env \<Rightarrow> string \<Rightarrow> json \<Rightarrow> py_error + new_instance" where
  "new_record E metric data_point =
     (case py_index data_point ''category'' of
        Inl e \<Rightarrow> Inl e
      | Inr c \<Rightarrow>
          (case py_index data_point ''value'' of
             Inl e \<Rightarrow> Inl e
           | Inr v \<Rightarrow>
               (case py_float (float_of_str E) v of
                  Inl e \<Rightarrow> Inl e
                | Inr f \<Rightarrow>
                    Inr \<lparr>new_metric_name = metric, new_category = c, new_value = f,
                         new_source_graph_hash =
                           take 64 (hexdigest (sha256_of_str E data_point))\<rparr>)))"

text \<open>The \<^verbatim>\<open>for\<close> loop of \<^verbatim>\<open>store_new_data_in_db\<close>; an exception leaves the loop with
  the instances added so far still pending in the session.\<close>

fun store_loop :: "env \<Rightarrow> json list \<Rightarrow> string \<Rightarrow> world \<Rightarrow> (py_error + unit) \<times> world" where
  "store_loop E [] metric w = (Inr (), w)"
| "store_loop E (data_point # rest) metric w =
     (case has_category_and_value data_point of
        Inl e \<Rightarrow> (Inl e, w)
      | Inr b \<Rightarrow>
          if b then
            (case new_record E metric data_point of
               Inl e \<Rightarrow> (Inl e, w)
             | Inr db_record \<Rightarrow> store_loop E rest metric (db_add db_record w))
          else store_loop E rest metric w)"

definition store_new_data_in_db ::
    "env \<Rightarrow> json \<Rightarrow> string \<Rightarrow> world \<Rightarrow> (py_error + unit) \<times> world" where
  "store_new_data_in_db E extracted_data metric w =
     (case py_iter extracted_data of
        Inl e \<Rightarrow> (Inl e, w)
      | Inr data_points \<Rightarrow>
          (case store_loop E data_points metric w of
             (Inl e, w') \<Rightarrow> (Inl e, w')
           | (Inr u, w') \<Rightarrow> db_commit E w'))"

section \<open>The Insight Validator\<close>

text \<open>\<^verbatim>\<open>[item.get('category', '') for item in extracted_data if 'category' in item]\<close>\<close>

fun categories_of :: "json list \<Rightarrow> py_error + json list" where
  "categories_of [] = Inr []"
| "categories_of (item # rest) =
     (case py_in ''category'' item of
        Inl e \<Rightarrow> Inl e
      | Inr b \<Rightarrow>
          if b then
            (case py_get item ''category'' (JStr '''') of
               Inl e \<Rightarrow> Inl e
             | Inr c \<Rightarrow>
                 (case categories_of rest of
                    Inl e \<Rightarrow> Inl e
                  | Inr cs \<Rightarrow> Inr (c # cs)))
          else categories_of rest)"

text \<open>The body of the \<^verbatim>\<open>try\<close> block (lines 153 to 159).\<close>

definition validation_attempt ::
    "env \<Rightarrow> gprompt \<Rightarrow> json \<Rightarrow> string \<Rightarrow> world \<Rightarrow> (py_error + json) \<times> world" where
  "validation_attempt E validation_prompt extracted_data metric w =
     (let w1 = log_event (GenerateContent validation_prompt) w in
      case generate_content E validation_prompt of
        Inl e \<Rightarrow> (Inl e, w1)
      | Inr text \<Rightarrow>
          (case json_loads E text of
             Inl e \<Rightarrow> (Inl e, w1)
           | Inr final_insights \<Rightarrow>
               (case store_new_data_in_db E extracted_data metric w1 of
                  (Inl e, w2) \<Rightarrow> (Inl e, w2)
                | (Inr u, w2) \<Rightarrow> (Inr final_insights, w2))))"

definition get_validated_insights :: "env \<Rightarrow> json \<Rightarrow> world \<Rightarrow> (py_error + json) \<times> world" where
  "get_validated_insights E initial_insights w =
     (case py_get initial_insights ''extracted_data'' (JList []) of
        Inl e \<Rightarrow> (Inl e, w)
      | Inr extracted_data \<Rightarrow>
          if \<not> py_truthy extracted_data then (Inr initial_insights, w)
          else
            (case py_iter extracted_data of
               Inl e \<Rightarrow> (Inl e, w)
             | Inr items \<Rightarrow>
                 (case categories_of items of
                    Inl e \<Rightarrow> (Inl e, w)
                  | Inr categories \<Rightarrow>
                      if categories = [] then (Inr initial_insights, w)
                      else
                        (case db_query ''general_metric'' categories w of
                           (Inl e, w1) \<Rightarrow> (Inl e, w1)
                         | (Inr historical_records, w1) \<Rightarrow>
                             if historical_records = [] then
                               (case store_new_data_in_db E extracted_data ''general_metric'' w1 of
                                  (Inl e, w2) \<Rightarrow> (Inl e, w2)
                                | (Inr u, w2) \<Rightarrow> (Inr initial_insights, w2))
                             else
                               (case validation_attempt E
                                       (ValidationPrompt initial_insights
                                          (map (\<lambda>r. (category r, value' r)) historical_records))
                                       extracted_data ''general_metric'' w1 of
                                  (Inr final_insights, w2) \<Rightarrow> (Inr final_insights, w2)
                                | (Inl e, w2) \<Rightarrow>
                                    (case store_new_data_in_db E extracted_data ''general_metric''
                                            (log_event (Print e) w2) of
                                       (Inl e', w3) \<Rightarrow> (Inl e', w3)
                                     | (Inr u, w3) \<Rightarrow> (Inr initial_insights, w3)))))))"

section \<open>The API surface\<close>

text \<open>
  \<^verbatim>\<open>class InsightResponse(BaseModel)\<close>: six required fields. \<^verbatim>\<open>InsightResponse(**d)\<close>
  needs a mapping (\<^verbatim>\<open>TypeError\<close> otherwise), raises a validation error when a field
  is missing or has the wrong type, and ignores other keys. Field types are checked
  without coercion (a string field takes a string only).
\<close>

datatype insight_response =
  InsightResponseModel string string "string list" "string list" "string list"
    "(string \<times> json) list list"

fun as_str :: "json \<Rightarrow> string option" where
  "as_str (JStr s) = Some s"
| "as_str _ = None"

fun as_dict :: "json \<Rightarrow> (string \<times> json) list option" where
  "as_dict (JDict kvs) = Some kvs"
| "as_dict _ = None"

fun as_list_of :: "(json \<Rightarrow> 'a option) \<Rightarrow> json \<Rightarrow> 'a list option" where
  "as_list_of f (JList xs) = those (map f xs)"
| "as_list_of f _ = None"

definition field :: "(json \<Rightarrow> 'a option) \<Rightarrow> (string \<times> json) list \<Rightarrow> string \<Rightarrow> 'a option" where
  "field f kvs k = (case map_of kvs k of None \<Rightarrow> None | Some v \<Rightarrow> f v)"

fun InsightResponse :: "json \<Rightarrow> py_error + insight_response" where
  "InsightResponse (JDict kvs) =
     (case (field as_str kvs ''chart_type'', field as_str kvs ''summary'',
            field (as_list_of as_str) kvs ''trends'', field (as_list_of as_str) kvs ''anomalies'',
            field (as_list_of as_str) kvs ''recommendations'',
            field (as_list_of as_dict) kvs ''extracted_data'') of
        (Some c, Some s, Some t, Some a, Some r, Some x) \<Rightarrow> Inr (InsightResponseModel c s t a r x)
      | _ \<Rightarrow> Inl ValidationError)"
| "InsightResponse _ = Inl TypeError"

text \<open>The status the caller sees: an \<^verbatim>\<open>HTTPException\<close> carries its own, any other
  exception leaving an endpoint is answered by the framework with 500.\<close>

fun status_code :: "py_error + 'a \<Rightarrow> nat" where
  "status_code (Inr x) = 200"
| "status_code (Inl (HTTPException n)) = n"
| "status_code (Inl e) = 500"

text \<open>The first pass (lines 80 to 105): every exception of the Gateway call becomes
  \<^verbatim>\<open>HTTPException(status_code=500)\<close>.\<close>

definition analyze_graph_with_gemini :: "env \<Rightarrow> image \<Rightarrow> world \<Rightarrow> (py_error + string) \<times> world" where
  "analyze_graph_with_gemini E img w =
     (let w1 = log_event (GenerateContent (ExtractionPrompt img)) w in
      case generate_content E (ExtractionPrompt img) of
        Inl e \<Rightarrow> (Inl (HTTPException 500), w1)
      | Inr text \<Rightarrow> (Inr text, w1))"

text \<open>
  Lines 208 to 219 and, word for word, 234 to 245: the first pass, \<^verbatim>\<open>json.loads\<close>
  (only \<^verbatim>\<open>json.JSONDecodeError\<close> is caught and turned into status 500), the
  Validator, the response model.
\<close>

definition analyze_image :: "env \<Rightarrow> image \<Rightarrow> world \<Rightarrow> (py_error + insight_response) \<times> world" where
  "analyze_image E img w =
     (case analyze_graph_with_gemini E img w of
        (Inl e, w1) \<Rightarrow> (Inl e, w1)
      | (Inr raw_insights_json_str, w1) \<Rightarrow>
          (case json_loads E raw_insights_json_str of
             Inl e \<Rightarrow> (Inl (if e = JSONDecodeError then HTTPException 500 else e), w1)
           | Inr initial_insights \<Rightarrow>
               (case get_validated_insights E initial_insights w1 of
                  (Inl e, w2) \<Rightarrow> (Inl e, w2)
                | (Inr validated_insights, w2) \<Rightarrow> (InsightResponse validated_insights, w2))))"

text \<open>\<^verbatim>\<open>s.startswith(p)\<close>\<close>

definition startswith :: "string \<Rightarrow> string \<Rightarrow> bool" where
  "startswith s p = (take (length p) s = p)"

text \<open>\<^verbatim>\<open>POST /api/analyze/upload\<close>; the content type of an upload may be absent.\<close>

definition analyze_uploaded_graph ::
    "env \<Rightarrow> string option \<Rightarrow> string \<Rightarrow> world \<Rightarrow> (py_error + insight_response) \<times> world" where
  "analyze_uploaded_graph E content_type image_content w =
     close_session
       (let db = open_session w in
        case content_type of
          None \<Rightarrow> (Inl AttributeError, db)
        | Some ct \<Rightarrow>
            if \<not> startswith ct ''image/'' then (Inl (HTTPException 400), db)
            else
              (case image_open E image_content of
                 Inl e \<Rightarrow> (Inl (HTTPException 400), db)
               | Inr img \<Rightarrow> analyze_image E img db))"

text \<open>\<^verbatim>\<open>s.split(c)\<close> for a one-character separator.\<close>

fun split_on :: "char \<Rightarrow> string \<Rightarrow> string list" where
  "split_on c [] = [[]]"
| "split_on c (x # xs) =
     (if x = c then [] # split_on c xs
      else (case split_on c xs of [] \<Rightarrow> [[x]] | p # ps \<Rightarrow> (x # p) # ps))"

text \<open>\<^verbatim>\<open>base64.b64decode(request.image_data.split(',')[1])\<close> and \<^verbatim>\<open>PIL.Image.open\<close>,
  inside one \<^verbatim>\<open>try\<close>.\<close>

definition decode_screen_capture :: "env \<Rightarrow> string \<Rightarrow> py_error + image" where
  "decode_screen_capture E image_data =
     (case split_on CHR '','' image_data of
        p0 # p1 # ps \<Rightarrow>
          (case b64decode E p1 of
             Inl e \<Rightarrow> Inl e
           | Inr bytes \<Rightarrow> image_open E bytes)
      | _ \<Rightarrow> Inl IndexError)"

text \<open>\<^verbatim>\<open>POST /api/analyze/screencap\<close>\<close>

definition analyze_screen_capture ::
    "env \<Rightarrow> string \<Rightarrow> world \<Rightarrow> (py_error + insight_response) \<times> world" where
  "analyze_screen_capture E image_data w =
     close_session
       (let db = open_session w in
        case decode_screen_capture E image_data of
          Inl e \<Rightarrow> (Inl (HTTPException 400), db)
        | Inr img \<Rightarrow> analyze_image E img db)"

text \<open>
  \<^verbatim>\<open>GET /api/history\<close>:
  \<^verbatim>\<open>db.query(GraphDataHistory).order_by(GraphDataHistory.extracted_at.desc()).limit(100).all()\<close>,
  then one object per record. The store leaves the order among equal timestamps open;
  here the row inserted later comes first.
\<close>

definition most_recent :: "nat \<Rightarrow> GraphDataHistory list \<Rightarrow> GraphDataHistory list" where
  "most_recent n rows = take n (rev (sort_key extracted_at rows))"

definition history_object :: "env \<Rightarrow> GraphDataHistory \<Rightarrow> json" where
  "history_object E r =
     JDict [(''id'', JInt (int (id' r))),
            (''metric_name'', JStr (metric_name r)),
            (''category'', JStr (category r)),
            (''value'', JFloat (value' r)),
            (''extracted_at'', JStr (isoformat E (extracted_at r)))]"

definition get_historical_data :: "env \<Rightarrow> world \<Rightarrow> (py_error + json list) \<times> world" where
  "get_historical_data E w =
     close_session
       (let db = log_event DbHistoryQuery (open_session w);
            records = most_recent 100 (table db)
        in (Inr (map (history_object E) records), db))"

section \<open>Notions used in the statements\<close>

text \<open>
  An Insight Record is a dictionary; its data points are the dictionaries listed under
  \<^verbatim>\<open>extracted_data\<close> (\<open>dps\<close> is \<open>[]\<close> when the key is absent, as for
  \<^verbatim>\<open>initial_insights.get("extracted_data", [])\<close>).
\<close>

fun is_dict :: "json \<Rightarrow> bool" where
  "is_dict (JDict kvs) = True"
| "is_dict _ = False"

definition insight_record :: "json \<Rightarrow> json list \<Rightarrow> bool" where
  "insight_record initial dps =
     (is_dict initial \<and> py_get initial ''extracted_data'' (JList []) = Inr (JList dps) \<and>
      list_all is_dict dps)"

fun category_of :: "json \<Rightarrow> json option" where
  "category_of (JDict kvs) = map_of kvs ''category''"
| "category_of _ = None"

fun value_of :: "json \<Rightarrow> json option" where
  "value_of (JDict kvs) = map_of kvs ''value''"
| "value_of _ = None"

text \<open>The categories of the data points that have one, in order.\<close>

definition categories :: "json list \<Rightarrow> json list" where
  "categories dps = List.map_filter category_of dps"

text \<open>A data point that has both a category and a value.\<close>

definition has_both :: "json \<Rightarrow> bool" where
  "has_both dp = (category_of dp \<noteq> None \<and> value_of dp \<noteq> None)"

text \<open>A string a column of width \<open>n\<close> takes: no NUL, at most \<open>n\<close> characters.\<close>

definition fits :: "nat \<Rightarrow> string \<Rightarrow> bool" where
  "fits n s = (\<not> has_nul s \<and> length s \<le> n)"

text \<open>The category of the data point, if it has one, is a string (the Insight Record of
  the specification has string categories) without a NUL.\<close>

definition string_category :: "json \<Rightarrow> bool" where
  "string_category dp =
     (case category_of dp of
        None \<Rightarrow> True
      | Some c \<Rightarrow> (case as_str c of None \<Rightarrow> False | Some s \<Rightarrow> \<not> has_nul s))"

text \<open>\<^verbatim>\<open>float\<close> accepts the value \<open>v\<close>, and the \<^verbatim>\<open>Numeric\<close> column the float it gives.\<close>

definition value_storable :: "env \<Rightarrow> json \<Rightarrow> bool" where
  "value_storable E v =
     (case py_float (float_of_str E) v of
        Inl e \<Rightarrow> False
      | Inr f \<Rightarrow> (case store_numeric E f of Inl e \<Rightarrow> False | Inr f' \<Rightarrow> True))"

text \<open>
  A data point the store can take: if it has both keys, its category is a string that
  fits the column of width 255 and its value is accepted by \<^verbatim>\<open>float\<close> and by the
  \<^verbatim>\<open>Numeric\<close> column.
\<close>

definition storable :: "env \<Rightarrow> json \<Rightarrow> bool" where
  "storable E dp =
     (case (category_of dp, value_of dp) of
        (Some c, Some v) \<Rightarrow>
          (case as_str c of
             None \<Rightarrow> False
           | Some s \<Rightarrow> fits 255 s \<and> value_storable E v)
      | _ \<Rightarrow> True)"

text \<open>
  The specification of the persistence helper, in its words: one row per data point that
  has both a category and a value, carrying the metric name, that category, that value
  as a number, and the fingerprint of the point. \<open>instance_of\<close> is the instance added to
  the session for such a point, \<open>row_of\<close> the row it becomes with key \<open>i\<close> at time \<open>now\<close>.
\<close>

definition instance_of :: "env \<Rightarrow> string \<Rightarrow> json \<Rightarrow> new_instance option" where
  "instance_of E metric dp =
     (case (category_of dp, value_of dp) of
        (Some c, Some v) \<Rightarrow>
          (case py_float (float_of_str E) v of
             Inl e \<Rightarrow> None
           | Inr f \<Rightarrow>
               Some \<lparr>new_metric_name = metric, new_category = c, new_value = f,
                     new_source_graph_hash = take 64 (hexdigest (sha256_of_str E dp))\<rparr>)
      | _ \<Rightarrow> None)"

definition instances_to_add :: "env \<Rightarrow> string \<Rightarrow> json list \<Rightarrow> new_instance list" where
  "instances_to_add E metric dps = List.map_filter (instance_of E metric) dps"

definition row_of :: "env \<Rightarrow> string \<Rightarrow> nat \<Rightarrow> nat \<Rightarrow> json \<Rightarrow> GraphDataHistory option" where
  "row_of E metric now i dp =
     (case (category_of dp, value_of dp) of
        (Some c, Some v) \<Rightarrow>
          (case (as_str c, py_float (float_of_str E) v) of
             (Some s, Inr f) \<Rightarrow>
               (case store_numeric E f of
                  Inl e \<Rightarrow> None
                | Inr f' \<Rightarrow>
                    Some \<lparr>id' = i, metric_name = metric, category = s, value' = f',
                          extracted_at = now,
                          source_graph_hash = take 64 (hexdigest (sha256_of_str E dp))\<rparr>)
           | _ \<Rightarrow> None)
      | _ \<Rightarrow> None)"

fun rows_to_write :: "env \<Rightarrow> string \<Rightarrow> nat \<Rightarrow> nat \<Rightarrow> json list \<Rightarrow> GraphDataHistory list" where
  "rows_to_write E metric now i [] = []"
| "rows_to_write E metric now i (dp # dps) =
     (case row_of E metric now i dp of
        None \<Rightarrow> rows_to_write E metric now i dps
      | Some r \<Rightarrow> r # rows_to_write E metric now (Suc i) dps)"

text \<open>A session as \<^verbatim>\<open>get_db\<close> hands it to a request: nothing pending, usable.\<close>

definition fresh_session :: "world \<Rightarrow> bool" where
  "fresh_session w = (session w = [] \<and> \<not> inactive w)"

text \<open>The world after the persistence helper added the instances of the data points to a
  fresh session and committed them.\<close>

definition world_after_store :: "env \<Rightarrow> string \<Rightarrow> json list \<Rightarrow> world \<Rightarrow> world" where
  "world_after_store E metric dps w =
     w\<lparr>table := table w @ rows_to_write E metric (clock w) (next_id w) dps,
       next_id := next_id w + length (rows_to_write E metric (clock w) (next_id w) dps),
       session := [],
       events := events w @ map DbAdd (instances_to_add E metric dps) @ [DbCommit]\<rparr>"

text \<open>
  The rows of the History Store that match the record: filed under the constant metric
  name, with the category of one of the data points. (Stated on the table itself, not
  through the lookup of the code.)
\<close>

definition matching_rows :: "world \<Rightarrow> json list \<Rightarrow> GraphDataHistory list" where
  "matching_rows w dps =
     [r \<leftarrow> table w. metric_name r = ''general_metric'' \<and> JStr (category r) \<in> set (categories dps)]"

text \<open>The second prompt, built from the initial record and the given rows.\<close>

definition second_prompt :: "json \<Rightarrow> GraphDataHistory list \<Rightarrow> gprompt" where
  "second_prompt initial hist = ValidationPrompt initial (map (\<lambda>r. (category r, value' r)) hist)"

text \<open>The validation pass fails with \<open>e\<close>: the Gateway call raises it, or \<^verbatim>\<open>json.loads\<close>
  raises it on the text returned.\<close>

definition validation_fails :: "env \<Rightarrow> gprompt \<Rightarrow> py_error \<Rightarrow> bool" where
  "validation_fails E p e =
     (case generate_content E p of
        Inl x \<Rightarrow> x = e
      | Inr text \<Rightarrow> json_loads E text = Inl e)"

text \<open>The extraction pass fails: the Gateway call raises, or \<^verbatim>\<open>json.loads\<close> raises on
  the text it returns (\<^verbatim>\<open>json.JSONDecodeError\<close>, or another exception of the parser;
  the parser raises no \<^verbatim>\<open>HTTPException\<close>).\<close>

fun is_http_exception :: "py_error \<Rightarrow> bool" where
  "is_http_exception (HTTPException n) = True"
| "is_http_exception _ = False"

definition extraction_fails :: "env \<Rightarrow> image \<Rightarrow> bool" where
  "extraction_fails E img =
     (case generate_content E (ExtractionPrompt img) of
        Inl e \<Rightarrow> True
      | Inr text \<Rightarrow>
          (case json_loads E text of Inl e \<Rightarrow> \<not> is_http_exception e | Inr j \<Rightarrow> False))"

text \<open>An event stays in the bucket \<open>m\<close>: a lookup is made on \<open>m\<close>, an added instance
  carries \<open>m\<close>.\<close>

fun in_bucket :: "string \<Rightarrow> event \<Rightarrow> bool" where
  "in_bucket m (DbQuery m' cs) = (m' = m)"
| "in_bucket m (DbAdd r) = (new_metric_name r = m)"
| "in_bucket m _ = True"

text \<open>
  From \<open>w\<close> to \<open>w'\<close> the table and the trace only grew, every new row carries the metric
  name \<open>m\<close>, and every new event stays in the bucket \<open>m\<close>.
\<close>

definition written_in_bucket :: "string \<Rightarrow> world \<Rightarrow> world \<Rightarrow> bool" where
  "written_in_bucket m w w' =
     (take (length (table w)) (table w') = table w \<and>
      list_all (\<lambda>r. metric_name r = m) (drop (length (table w)) (table w')) \<and>
      take (length (events w)) (events w') = events w \<and>
      list_all (in_bucket m) (drop (length (events w)) (events w')))"

text \<open>The same for a step inside a request, where instances may be pending in the session:
  if the pending instances carry \<open>m\<close>, so do the new rows and the instances pending
  afterwards.\<close>

definition bucket_step :: "string \<Rightarrow> world \<Rightarrow> world \<Rightarrow> bool" where
  "bucket_step m w w' =
     (\<exists>new evs.
        table w' = table w @ new \<and> events w' = events w @ evs \<and>
        list_all (in_bucket m) evs \<and>
        (list_all (\<lambda>r. new_metric_name r = m) (session w) \<longrightarrow>
           list_all (\<lambda>r. metric_name r = m) new \<and>
           list_all (\<lambda>r. new_metric_name r = m) (session w')))"

text \<open>
  The rows a second prompt shows to the Gateway are rows of the bucket: every
  second prompt among the events \<open>evs\<close> lists, in table order, the category and value of
  exactly the rows of \<open>t\<close> that carry the metric name \<open>m\<close> and one of the categories \<open>cs\<close>.
\<close>

fun prompt_from_bucket :: "string \<Rightarrow> json list \<Rightarrow> GraphDataHistory list \<Rightarrow> event \<Rightarrow> bool" where
  "prompt_from_bucket m cs t (GenerateContent (ValidationPrompt j h)) =
     (h = map (\<lambda>r. (category r, value' r))
            [r \<leftarrow> t. metric_name r = m \<and> JStr (category r) \<in> set cs])"
| "prompt_from_bucket m cs t _ = True"

text \<open>The events of the persistence helper.\<close>

fun is_store_event :: "event \<Rightarrow> bool" where
  "is_store_event (DbAdd r) = True"
| "is_store_event DbCommit = True"
| "is_store_event (DbRollback e) = True"
| "is_store_event _ = False"

text \<open>The keys of an object, in order.\<close>

fun keys_of :: "json \<Rightarrow> string list" where
  "keys_of (JDict kvs) = map fst kvs"
| "keys_of _ = []"

text \<open>The response model rejects the value.\<close>

definition shape_mismatch :: "json \<Rightarrow> bool" where
  "shape_mismatch j = (case InsightResponse j of Inl e \<Rightarrow> True | Inr r \<Rightarrow> False)"

text \<open>The six fields of the response model.\<close>

definition required_fields :: "string list" where
  "required_fields =
     [''chart_type'', ''summary'', ''trends'', ''anomalies'', ''recommendations'',
      ''extracted_data'']"


subsection \<open>Concrete inputs\<close>

text \<open>A store that keeps every number as it is and refuses every category that is not a
  string.\<close>

definition sample_env :: "(gprompt \<Rightarrow> py_error + string) \<Rightarrow> (string \<Rightarrow> py_error + json) \<Rightarrow> env" where
  "sample_env gateway parse =
     \<lparr>generate_content = gateway, json_loads = parse,
      float_of_str = (\<lambda>s. Inl ValueError), sha256_of_str = (\<lambda>dp. 15),
      image_open = (\<lambda>b. if b = [] then Inl ImageError else Inr (Image b)),
      b64decode = Inr, isoformat = (\<lambda>t. ''2024-01-01T00:00:00''),
      store_numeric = Inr, adapt_category = (\<lambda>c. Inl ProgrammingError)\<rparr>"

text \<open>The fingerprint every data point gets under \<open>sample_env\<close>.\<close>

definition sample_hash :: string where
  "sample_hash = take 64 (hexdigest 15)"

definition gateway_down :: "gprompt \<Rightarrow> py_error + string" where
  "gateway_down p = Inl GatewayError"

definition gateway_says :: "string \<Rightarrow> gprompt \<Rightarrow> py_error + string" where
  "gateway_says text p = Inr text"

definition insights_with :: "json list \<Rightarrow> json" where
  "insights_with dps =
     JDict [(''chart_type'', JStr ''Bar Chart''), (''summary'', JStr ''Sales grow''),
            (''trends'', JList [JStr ''up'']), (''anomalies'', JList []),
            (''recommendations'', JList []), (''extracted_data'', JList dps)]"

definition jan_feb :: "json list" where
  "jan_feb = [JDict [(''category'', JStr ''Jan''), (''value'', JInt 150)],
              JDict [(''category'', JStr ''Feb''), (''value'', JInt 170)]]"

definition jan_huge :: "json list" where
  "jan_huge = [JDict [(''category'', JStr ''Jan''), (''value'', JInt (2 ^ 1024))]]"

definition mixed_points :: "json list" where
  "mixed_points =
     [JDict [(''category'', JStr ''Jan''), (''value'', JInt 150)],
      JDict [(''category'', JStr ''Mar'')],
      JDict [(''value'', JInt 5)],
      JDict [(''category'', JStr ''Feb''), (''value'', JInt 170)]]"

definition refined_insights :: json where
  "refined_insights =
     JDict [(''chart_type'', JStr ''Bar Chart''), (''summary'', JStr ''Sales grow, as before''),
            (''trends'', JList [JStr ''up'']), (''anomalies'', JList []),
            (''recommendations'', JList [JStr ''keep going'']),
            (''extracted_data'', JList jan_feb)]"

definition no_summary :: json where
  "no_summary = JDict [(''chart_type'', JStr ''Bar Chart'')]"

text \<open>\<open>parse_as j\<close> reads the text \<^verbatim>\<open>ok\<close> as \<open>j\<close> and rejects every other text.\<close>

definition parse_as :: "json \<Rightarrow> string \<Rightarrow> py_error + json" where
  "parse_as j s = (if s = ''ok'' then Inr j else Inl JSONDecodeError)"

definition two_pass_gateway :: "gprompt \<Rightarrow> py_error + string" where
  "two_pass_gateway p =
     (case p of ExtractionPrompt img \<Rightarrow> Inr ''first'' | ValidationPrompt j h \<Rightarrow> Inr ''ok'')"

text \<open>\<open>parse_two a b\<close> reads the text \<^verbatim>\<open>first\<close> as \<open>a\<close>, the text \<^verbatim>\<open>ok\<close> as \<open>b\<close>, and
  rejects every other text.\<close>

definition parse_two :: "json \<Rightarrow> json \<Rightarrow> string \<Rightarrow> py_error + json" where
  "parse_two a b s =
     (if s = ''first'' then Inr a else if s = ''ok'' then Inr b else Inl JSONDecodeError)"

definition empty_world :: world where
  "empty_world =
     \<lparr>table = [], next_id = 1, clock = 7, session = [], inactive = False, events = []\<rparr>"

definition jan_row :: GraphDataHistory where
  "jan_row = \<lparr>id' = 1, metric_name = ''general_metric'', category = ''Jan'',
             value' = Finite 100, extracted_at = 3, source_graph_hash = ''0f''\<rparr>"

definition feb_row :: GraphDataHistory where
  "feb_row = \<lparr>id' = 2, metric_name = ''general_metric'', category = ''Feb'',
             value' = Finite 170, extracted_at = 5, source_graph_hash = ''0f''\<rparr>"

text \<open>Rows that match no lookup for January and February on the constant metric name: one
  filed under another metric name, one with another category.\<close>

definition other_metric_row :: GraphDataHistory where
  "other_metric_row = \<lparr>id' = 2, metric_name = ''revenue'', category = ''Jan'',
             value' = Finite 9, extracted_at = 4, source_graph_hash = ''0f''\<rparr>"

definition mar_row :: GraphDataHistory where
  "mar_row = \<lparr>id' = 3, metric_name = ''general_metric'', category = ''Mar'',
             value' = Finite 120, extracted_at = 5, source_graph_hash = ''0f''\<rparr>"

definition world_with_history :: world where
  "world_with_history =
     \<lparr>table = [jan_row], next_id = 2, clock = 7, session = [], inactive = False, events = []\<rparr>"

definition world_with_mixed_history :: world where
  "world_with_mixed_history =
     \<lparr>table = [jan_row, other_metric_row, mar_row], next_id = 4, clock = 7, session = [],
      inactive = False, events = []\<rparr>"

definition world_without_match :: world where
  "world_without_match =
     \<lparr>table = [other_metric_row, mar_row], next_id = 4, clock = 7, session = [],
      inactive = False, events = []\<rparr>"

definition world_with_two_rows :: world where
  "world_with_two_rows =
     \<lparr>table = [jan_row, feb_row], next_id = 3, clock = 7, session = [], inactive = False,
      events = []\<rparr>"




text \<open>Data points the store refuses: a category that is \<^verbatim>\<open>None\<close>, and one of 256
  characters.\<close>

definition null_category :: "json list" where
  "null_category = [JDict [(''category'', JNull), (''value'', JInt 150)]]"

definition long_category :: "json list" where
  "long_category = [JDict [(''category'', JStr (replicate 256 CHR ''a'')), (''value'', JInt 150)]]"

section \<open>Facts about the model\<close>

subsection \<open>Conversion of integers\<close>

lemma bit_length_less: "n < 2 ^ k \<Longrightarrow> bit_length n \<le> k"
proof (induction k arbitrary: n)
  case 0
  then show ?case by (simp add: bit_length.simps)
next
  case (Suc k)
  then have "n div 2 < 2 ^ k" by simp
  with Suc.IH have "bit_length (n div 2) \<le> k" by blast
  then show ?case by (subst bit_length.simps) simp
qed

lemma bit_length_greater: "2 ^ k \<le> n \<Longrightarrow> k < bit_length n"
proof (induction k arbitrary: n)
  case 0
  then show ?case by (subst bit_length.simps) simp
next
  case (Suc k)
  then have "2 ^ k \<le> n div 2" by simp
  with Suc.IH have "k < bit_length (n div 2)" by blast
  moreover from Suc.prems have "n \<noteq> 0" by (cases "n = 0") simp_all
  ultimately show ?case by (subst bit_length.simps) simp
qed

lemma bit_length_lower: "0 < n \<Longrightarrow> 2 ^ (bit_length n - 1) \<le> n"
proof (induction n rule: bit_length.induct)
  case (1 n)
  have unfold: "bit_length n = Suc (bit_length (n div 2))"
    using 1(2) by (subst bit_length.simps) simp
  show ?case
  proof (cases "n div 2 = 0")
    case True
    then have "bit_length (n div 2) = 0" by (simp add: bit_length.simps)
    with unfold 1(2) show ?thesis by simp
  next
    case False
    with 1 have "2 ^ (bit_length (n div 2) - 1) \<le> n div 2" by simp
    moreover have "0 < bit_length (n div 2)"
      using False by (subst bit_length.simps) simp
    ultimately show ?thesis
      unfolding unfold by (cases "bit_length (n div 2)") auto
  qed
qed

lemma float_of_int_exact:
  assumes "\<bar>n\<bar> < 2 ^ 53"
  shows "float_of_int n = Inr (Finite (of_int n))"
proof -
  define a where "a = nat \<bar>n\<bar>"
  have a: "a < 2 ^ 53" using assms by (simp add: a_def nat_less_iff)
  then have e: "bit_length a - 53 = 0"
    using bit_length_less[of a 53] by simp
  have "(2::nat) ^ 53 \<le> 2 ^ 1024" by (rule power_increasing) simp_all
  with a have big: "\<not> 2 ^ 1024 \<le> a" by linarith
  have "sgn n * int a = n" by (simp add: a_def mult_sgn_abs)
  with big show ?thesis
    unfolding float_of_int_def Let_def a_def[symmetric] e
    by (simp del: power_numeral)
qed

lemma float_of_int_overflow:
  assumes "2 ^ 1024 \<le> \<bar>n\<bar>"
  shows "float_of_int n = Inl OverflowError"
proof -
  define a where "a = nat \<bar>n\<bar>"
  define e where "e = bit_length a - 53"
  define q where "q = a div 2 ^ e"
  have a: "2 ^ 1024 \<le> a" using assms by (simp add: a_def le_nat_iff)
  then have bl: "1024 < bit_length a" by (rule bit_length_greater)
  have "(0::nat) < 2 ^ 1024" by (rule zero_less_power) simp
  with a have "0 < a" by linarith
  then have low: "2 ^ (bit_length a - 1) \<le> a" by (rule bit_length_lower)
  have "bit_length a - 1 = 52 + e" using bl by (simp add: e_def)
  with low have "2 ^ 52 * 2 ^ e \<le> a" by (simp add: power_add)
  then have q: "2 ^ 52 \<le> q"
    unfolding q_def by (simp add: less_eq_div_iff_mult_less_eq)
  have "1024 \<le> 52 + e" using bl by (simp add: e_def)
  then have "(2::nat) ^ 1024 \<le> 2 ^ (52 + e)" by (intro power_increasing) simp_all
  also have "\<dots> = 2 ^ 52 * 2 ^ e" by (simp add: power_add)
  also have "\<dots> \<le> q * 2 ^ e" using q by (rule mult_le_mono1)
  finally have m: "2 ^ 1024 \<le> q * 2 ^ e" .
  have "q * 2 ^ e \<le> (q + 1) * 2 ^ e" by (rule mult_le_mono1) simp
  with m have m': "2 ^ 1024 \<le> (q + 1) * 2 ^ e" by (rule le_trans)
  show ?thesis
    using m m' unfolding float_of_int_def Let_def a_def[symmetric] e_def[symmetric] q_def[symmetric]
    by (simp del: power_numeral)
qed

subsection \<open>Fingerprints\<close>

lemma length_hex [simp]: "length (hex k n) = k"
  by (induction k arbitrary: n) simp_all

lemma hex_digit_not_nul: "hex_digit d \<noteq> CHR 0x00"
proof -
  have "d mod 16 < length ''0123456789abcdef''" by simp
  then have "hex_digit d \<in> set ''0123456789abcdef''"
    unfolding hex_digit_def by (rule nth_mem)
  then show ?thesis by auto
qed

lemma hex_no_nul: "\<not> has_nul (hex k n)"
  by (induction k arbitrary: n) (simp_all add: has_nul_def hex_digit_not_nul [symmetric])

lemma fits_hexdigest [simp]: "fits 64 (take 64 (hexdigest n))"
  by (auto simp: fits_def hexdigest_def hex_no_nul)

lemma fits_general_metric [simp]: "fits 255 ''general_metric''"
  by (simp add: fits_def has_nul_def)

lemma sample_sha256 [simp]:
  "take 64 (hexdigest (sha256_of_str (sample_env g p) dp)) = sample_hash"
  by (simp add: sample_hash_def sample_env_def)

lemma sample_hash_15 [simp]: "take 64 (hexdigest 15) = sample_hash"
  by (simp add: sample_hash_def)

subsection \<open>The persistence helper on dictionaries\<close>

lemma log_event_fields [simp]:
  "table (log_event ev w) = table w" "next_id (log_event ev w) = next_id w"
  "clock (log_event ev w) = clock w" "session (log_event ev w) = session w"
  "inactive (log_event ev w) = inactive w" "events (log_event ev w) = events w @ [ev]"
  by (simp_all add: log_event_def)

lemma fresh_session_log_event [simp]: "fresh_session (log_event ev w) = fresh_session w"
  by (simp add: fresh_session_def)

lemma has_category_and_value_dict:
  "is_dict dp \<Longrightarrow> has_category_and_value dp = Inr (has_both dp)"
  by (cases dp) (auto simp: has_category_and_value_def has_both_def)

lemma instance_of_None: "\<not> has_both dp \<Longrightarrow> instance_of E metric dp = None"
  by (auto simp: has_both_def instance_of_def split: option.splits)

lemma row_of_None: "\<not> has_both dp \<Longrightarrow> row_of E metric now i dp = None"
  by (auto simp: has_both_def row_of_def split: option.splits)

lemma new_record_dict:
  assumes "is_dict dp" "has_both dp" "storable E dp"
  shows "\<exists>p. new_record E metric dp = Inr p \<and> instance_of E metric dp = Some p"
  using assms
  by (cases dp)
     (auto simp: new_record_def instance_of_def has_both_def storable_def value_storable_def
           split: option.splits sum.splits)

lemma store_loop_instances:
  assumes "list_all is_dict dps" and "list_all (storable E) dps"
  shows "store_loop E dps metric w =
           (Inr (), w\<lparr>session := session w @ instances_to_add E metric dps,
                      events := events w @ map DbAdd (instances_to_add E metric dps)\<rparr>)"
  using assms
proof (induction dps arbitrary: w)
  case Nil
  then show ?case by (simp add: instances_to_add_def)
next
  case (Cons dp dps)
  show ?case
  proof (cases "has_both dp")
    case True
    with Cons.prems obtain p where p: "new_record E metric dp = Inr p" "instance_of E metric dp = Some p"
      using new_record_dict[of dp E metric] by auto
    with True Cons show ?thesis
      by (simp add: has_category_and_value_dict instances_to_add_def db_add_def log_event_def)
  next
    case False
    with Cons show ?thesis
      by (simp add: has_category_and_value_dict instance_of_None instances_to_add_def)
  qed
qed

lemma varchar_ok: "fits n s \<Longrightarrow> varchar n s = Inr s"
  by (simp add: varchar_def fits_def)

lemma fits_take [simp]: "fits n s \<Longrightarrow> fits n (take k s)"
  by (auto simp: fits_def has_nul_def dest: in_set_takeD)

lemma insert_instance_storable:
  assumes "has_both dp" and "storable E dp" and "fits 255 metric"
  shows "\<exists>p r. instance_of E metric dp = Some p \<and> row_of E metric now i dp = Some r \<and>
               insert_instance E now i p = Inr r"
proof -
  from assms(1) obtain c v where cv: "category_of dp = Some c" "value_of dp = Some v"
    by (auto simp: has_both_def)
  with assms(2) obtain s f f' where
    s: "c = JStr s" "fits 255 s" and
    f: "py_float (float_of_str E) v = Inr f" "store_numeric E f = Inr f'"
    by (cases c) (auto simp: storable_def value_storable_def split: sum.splits)
  show ?thesis
    using cv s f assms(3)
    by (simp add: instance_of_def row_of_def insert_instance_def category_column_def varchar_ok)
qed

lemma insert_all_rows:
  assumes "list_all (storable E) dps" and "fits 255 metric"
  shows "insert_all E now i (instances_to_add E metric dps) = Inr (rows_to_write E metric now i dps)"
  using assms(1)
proof (induction dps arbitrary: i)
  case Nil
  then show ?case by (simp add: instances_to_add_def)
next
  case (Cons dp dps)
  then have IH: "\<And>k. insert_all E now k (instances_to_add E metric dps) =
                      Inr (rows_to_write E metric now k dps)"
    by simp
  show ?case
  proof (cases "has_both dp")
    case True
    with Cons.prems assms(2) obtain p r where
      "instance_of E metric dp = Some p" "row_of E metric now i dp = Some r"
      "insert_instance E now i p = Inr r"
      using insert_instance_storable [of dp E metric now i] by auto
    then show ?thesis
      using IH [of "Suc i"] by (simp add: instances_to_add_def)
  next
    case False
    then show ?thesis
      using IH [of i] by (simp add: instances_to_add_def instance_of_None row_of_None)
  qed
qed

lemma length_rows_to_write:
  assumes "list_all (storable E) dps"
  shows "length (rows_to_write E metric now i dps) = length (filter has_both dps)"
  using assms
proof (induction dps arbitrary: i)
  case Nil
  then show ?case by simp
next
  case (Cons dp dps)
  then have IH: "\<And>k. length (rows_to_write E metric now k dps) = length (filter has_both dps)"
    by simp
  show ?case
  proof (cases "has_both dp")
    case True
    with Cons.prems obtain r where "row_of E metric now i dp = Some r"
      by (cases "category_of dp"; cases "value_of dp")
         (auto simp: has_both_def storable_def value_storable_def row_of_def
               split: option.splits sum.splits)
    with True IH [of "Suc i"] show ?thesis by simp
  next
    case False
    with IH [of i] show ?thesis by (simp add: row_of_None)
  qed
qed

lemma length_instances_to_add:
  assumes "list_all (storable E) dps"
  shows "length (instances_to_add E metric dps) = length (filter has_both dps)"
  using assms
proof (induction dps)
  case Nil
  then show ?case by (simp add: instances_to_add_def)
next
  case (Cons dp dps)
  then show ?case
    by (cases "category_of dp"; cases "value_of dp")
       (auto simp: instances_to_add_def instance_of_def has_both_def storable_def
             value_storable_def split: option.splits sum.splits)
qed

lemma store_new_data_in_db_rows:
  assumes "list_all is_dict dps" and "list_all (storable E) dps"
    and "fits 255 metric" and "fresh_session w"
  shows "store_new_data_in_db E (JList dps) metric w =
           (Inr (), world_after_store E metric dps w)"
  using assms
  by (simp add: store_new_data_in_db_def store_loop_instances db_commit_def insert_all_rows
        fresh_session_def log_event_def world_after_store_def)

lemma world_after_store_fields [simp]:
  "table (world_after_store E metric dps w) =
     table w @ rows_to_write E metric (clock w) (next_id w) dps"
  "events (world_after_store E metric dps w) =
     events w @ map DbAdd (instances_to_add E metric dps) @ [DbCommit]"
  "session (world_after_store E metric dps w) = []"
  "inactive (world_after_store E metric dps w) = inactive w"
  by (simp_all add: world_after_store_def)

text \<open>The store's refusals are part of the model: a category that is \<^verbatim>\<open>None\<close>, or one of
  256 characters, makes the commit raise, and nothing is written.\<close>

lemma null_category_refused:
  "store_new_data_in_db (sample_env gateway_down (parse_as JNull)) (JList null_category)
     ''general_metric'' empty_world =
   (Inl IntegrityError,
    empty_world\<lparr>inactive := True,
      events := [DbAdd \<lparr>new_metric_name = ''general_metric'', new_category = JNull,
                        new_value = Finite 150, new_source_graph_hash = sample_hash\<rparr>,
                 DbRollback IntegrityError]\<rparr>)"
  by (simp add: store_new_data_in_db_def has_category_and_value_def new_record_def
        float_of_int_exact db_add_def db_commit_def insert_instance_def category_column_def
        varchar_def has_nul_def log_event_def null_category_def empty_world_def sample_env_def)

lemma long_category_refused:
  "fst (store_new_data_in_db (sample_env gateway_down (parse_as JNull)) (JList long_category)
     ''general_metric'' empty_world) = Inl DataError \<and>
   table (snd (store_new_data_in_db (sample_env gateway_down (parse_as JNull)) (JList long_category)
     ''general_metric'' empty_world)) = []"
  by (simp add: store_new_data_in_db_def has_category_and_value_def new_record_def
        float_of_int_exact db_add_def db_commit_def insert_instance_def category_column_def
        varchar_def has_nul_def log_event_def long_category_def empty_world_def sample_env_def)

subsection \<open>The paths of the Validator\<close>

lemma categories_of_dicts:
  "list_all is_dict dps \<Longrightarrow> categories_of dps = Inr (categories dps)"
proof (induction dps)
  case Nil
  then show ?case by (simp add: categories_def)
next
  case (Cons dp dps)
  then show ?case by (cases dp) (auto simp: categories_def)
qed

lemma categories_empty: "list_all (\<lambda>dp. category_of dp = None) dps \<Longrightarrow> categories dps = []"
  by (induction dps) (auto simp: categories_def)

lemma categories_str_or_none:
  "list_all string_category dps \<Longrightarrow> list_all str_or_none (categories dps)"
proof (induction dps)
  case Nil
  then show ?case by (simp add: categories_def)
next
  case (Cons dp dps)
  then have "list_all str_or_none (categories dps)" by simp
  moreover have "\<And>c. category_of dp = Some c \<Longrightarrow> str_or_none c"
    using Cons.prems by (case_tac c) (auto simp: string_category_def)
  ultimately show ?case
    by (cases "category_of dp") (auto simp: categories_def)
qed

lemma categories_no_nul:
  "list_all string_category dps \<Longrightarrow> \<not> list_ex nul_string (categories dps)"
proof (induction dps)
  case Nil
  then show ?case by (simp add: categories_def)
next
  case (Cons dp dps)
  then have "\<not> list_ex nul_string (categories dps)" by simp
  moreover have "\<And>c. category_of dp = Some c \<Longrightarrow> \<not> nul_string c"
    using Cons.prems by (case_tac c) (auto simp: string_category_def)
  ultimately show ?case
    by (cases "category_of dp") (auto simp: categories_def)
qed

lemma db_query_matching:
  assumes "list_all string_category dps" and "\<not> inactive w"
  shows "db_query ''general_metric'' (categories dps) w =
           (Inr (matching_rows w dps), log_event (DbQuery ''general_metric'' (categories dps)) w)"
  using assms
  by (simp add: db_query_def matching_rows_def categories_str_or_none categories_no_nul)

lemma validator_early_return:
  assumes "insight_record initial dps" and "categories dps = []"
  shows "get_validated_insights E initial w = (Inr initial, w)"
  using assms
  by (simp add: get_validated_insights_def insight_record_def categories_of_dicts)

lemma validator_no_history:
  assumes "insight_record initial dps" and "categories dps \<noteq> []"
    and "list_all string_category dps" and "list_all (storable E) dps"
    and "fresh_session w" and "matching_rows w dps = []"
  shows "get_validated_insights E initial w =
           (Inr initial,
            world_after_store E ''general_metric'' dps
              (log_event (DbQuery ''general_metric'' (categories dps)) w))"
proof -
  from assms(2) have "dps \<noteq> []" by (auto simp: categories_def)
  moreover from assms(5) have "\<not> inactive w" by (simp add: fresh_session_def)
  ultimately show ?thesis
    using assms
    by (simp add: get_validated_insights_def insight_record_def categories_of_dicts
          db_query_matching store_new_data_in_db_rows)
qed

lemma validator_refined:
  assumes "insight_record initial dps" and "categories dps \<noteq> []"
    and "list_all string_category dps" and "list_all (storable E) dps"
    and "fresh_session w" and "matching_rows w dps \<noteq> []"
    and "generate_content E (second_prompt initial (matching_rows w dps)) = Inr text"
    and "json_loads E text = Inr refined"
  shows "get_validated_insights E initial w =
           (Inr refined,
            world_after_store E ''general_metric'' dps
              (log_event (GenerateContent (second_prompt initial (matching_rows w dps)))
                 (log_event (DbQuery ''general_metric'' (categories dps)) w)))"
proof -
  from assms(2) have "dps \<noteq> []" by (auto simp: categories_def)
  moreover from assms(5) have "\<not> inactive w" by (simp add: fresh_session_def)
  ultimately show ?thesis
    using assms
    by (simp add: get_validated_insights_def insight_record_def categories_of_dicts
          db_query_matching validation_attempt_def store_new_data_in_db_rows
          second_prompt_def[symmetric])
qed

lemma validator_fallback:
  assumes "insight_record initial dps" and "categories dps \<noteq> []"
    and "list_all string_category dps" and "list_all (storable E) dps"
    and "fresh_session w" and "matching_rows w dps \<noteq> []"
    and "validation_fails E (second_prompt initial (matching_rows w dps)) e"
  shows "get_validated_insights E initial w =
           (Inr initial,
            world_after_store E ''general_metric'' dps
              (log_event (Print e)
                (log_event (GenerateContent (second_prompt initial (matching_rows w dps)))
                  (log_event (DbQuery ''general_metric'' (categories dps)) w))))"
proof -
  from assms(2) have "dps \<noteq> []" by (auto simp: categories_def)
  moreover from assms(5) have "\<not> inactive w" by (simp add: fresh_session_def)
  ultimately show ?thesis
    using assms
    by (auto simp: get_validated_insights_def insight_record_def categories_of_dicts
          db_query_matching validation_attempt_def store_new_data_in_db_rows
          second_prompt_def[symmetric] validation_fails_def split: sum.splits)
qed

section \<open>The claims\<close>

text \<open>
  \<^bold>\<open>C3.\<close> For an Insight Record whose \<^verbatim>\<open>extracted_data\<close> is empty, and for one whose
  data points all lack a category, the Validator returns the input record and leaves the
  world as it was: no lookup, no write, no commit, no Gateway call.
\<close>

theorem validator_without_categories_is_silent:
  assumes "insight_record initial dps"
    and "dps = [] \<or> list_all (\<lambda>dp. category_of dp = None) dps"
  shows "get_validated_insights E initial w = (Inr initial, w)"
proof -
  from assms(2) have "categories dps = []"
  proof
    assume "dps = []"
    then show ?thesis by (simp add: categories_def)
  next
    assume "list_all (\<lambda>dp. category_of dp = None) dps"
    then show ?thesis by (rule categories_empty)
  qed
  with assms(1) show ?thesis by (rule validator_early_return)
qed

theorem validator_without_categories_is_silent_witness:
  "insight_record (insights_with []) [] \<and>
   get_validated_insights (sample_env gateway_down (parse_as JNull)) (insights_with [])
       world_with_history = (Inr (insights_with []), world_with_history) \<and>
   insight_record (insights_with [JDict [(''value'', JInt 150)]]) [JDict [(''value'', JInt 150)]] \<and>
   list_all (\<lambda>dp. category_of dp = None) [JDict [(''value'', JInt 150)]] \<and>
   get_validated_insights (sample_env gateway_down (parse_as JNull))
       (insights_with [JDict [(''value'', JInt 150)]]) world_with_history =
     (Inr (insights_with [JDict [(''value'', JInt 150)]]), world_with_history)"
proof -
  have a: "insight_record (insights_with []) []"
    by (simp add: insight_record_def insights_with_def)
  have b: "insight_record (insights_with [JDict [(''value'', JInt 150)]]) [JDict [(''value'', JInt 150)]]"
    by (simp add: insight_record_def insights_with_def)
  have c: "list_all (\<lambda>dp. category_of dp = None) [JDict [(''value'', JInt 150)]]" by simp
  show ?thesis
    using a b c validator_without_categories_is_silent [OF a, of "sample_env gateway_down (parse_as JNull)" world_with_history]
      validator_without_categories_is_silent [OF b, of "sample_env gateway_down (parse_as JNull)" world_with_history]
    by simp
qed

subsection \<open>The sample inputs\<close>

lemma has_nul_Nil [simp]: "\<not> has_nul []"
  by (simp add: has_nul_def)

lemma has_nul_Cons [simp]: "has_nul (c # s) = (c = CHR 0x00 \<or> has_nul s)"
  by (auto simp add: has_nul_def)

lemma fits_Nil [simp]: "fits n []"
  by (simp add: fits_def)

lemma fits_Cons [simp]: "fits n (c # s) = (c \<noteq> CHR 0x00 \<and> 0 < n \<and> fits (n - 1) s)"
  by (auto simp add: fits_def)

lemma jan_feb_record: "insight_record (insights_with jan_feb) jan_feb"
  by (simp add: insight_record_def insights_with_def jan_feb_def)

lemma jan_feb_categories: "categories jan_feb = [JStr ''Jan'', JStr ''Feb'']"
  by (simp add: categories_def jan_feb_def)

lemma jan_feb_strings: "list_all string_category jan_feb"
  by (simp add: string_category_def jan_feb_def)

lemma sample_store_numeric [simp]: "store_numeric (sample_env g p) = Inr"
  by (simp add: sample_env_def)

lemma sample_float_of_str [simp]: "float_of_str (sample_env g p) = (\<lambda>s. Inl ValueError)"
  by (simp add: sample_env_def)

lemma jan_feb_storable: "list_all (storable (sample_env g p)) jan_feb"
  by (simp add: storable_def value_storable_def jan_feb_def float_of_int_exact)

lemma jan_feb_rows:
  "rows_to_write (sample_env g p) ''general_metric'' now i jan_feb =
     [\<lparr>id' = i, metric_name = ''general_metric'', category = ''Jan'', value' = Finite 150,
       extracted_at = now, source_graph_hash = sample_hash\<rparr>,
      \<lparr>id' = Suc i, metric_name = ''general_metric'', category = ''Feb'', value' = Finite 170,
       extracted_at = now, source_graph_hash = sample_hash\<rparr>]"
  by (simp add: row_of_def jan_feb_def float_of_int_exact)

lemma jan_feb_instances:
  "instances_to_add (sample_env g p) ''general_metric'' jan_feb =
     [\<lparr>new_metric_name = ''general_metric'', new_category = JStr ''Jan'', new_value = Finite 150,
       new_source_graph_hash = sample_hash\<rparr>,
      \<lparr>new_metric_name = ''general_metric'', new_category = JStr ''Feb'', new_value = Finite 170,
       new_source_graph_hash = sample_hash\<rparr>]"
  by (simp add: instances_to_add_def instance_of_def jan_feb_def float_of_int_exact)

lemma jan_feb_mixed_history: "matching_rows world_with_mixed_history jan_feb = [jan_row]"
  by (simp add: matching_rows_def jan_feb_categories world_with_mixed_history_def jan_row_def
        other_metric_row_def mar_row_def)

lemma jan_feb_without_match: "matching_rows world_without_match jan_feb = []"
  by (simp add: matching_rows_def jan_feb_categories world_without_match_def
        other_metric_row_def mar_row_def)

lemma fresh_samples:
  "fresh_session empty_world" "fresh_session world_with_history"
  "fresh_session world_with_mixed_history" "fresh_session world_without_match"
  by (simp_all add: fresh_session_def empty_world_def world_with_history_def
        world_with_mixed_history_def world_without_match_def)

text \<open>
  \<^bold>\<open>C4\<close> (as amended). For an Insight Record with at least one categorized data point, called
  with a fresh session, when no row of the store carries the constant metric name and one
  of the record's categories, every category is a string free of NUL characters, and every
  data point that has both keys has a category of at most 255 characters and a value that
  \<^verbatim>\<open>float\<close> and the \<^verbatim>\<open>Numeric\<close> column accept, the Validator returns the input record, makes
  no Gateway call (the trace is the lookup, the adds and one commit), and commits one row
  per data point that has both a category and a value.
\<close>

theorem validator_without_history_stores:
  assumes "insight_record initial dps" and "categories dps \<noteq> []"
    and "list_all string_category dps" and "list_all (storable E) dps"
    and "fresh_session w" and "matching_rows w dps = []"
  shows "fst (get_validated_insights E initial w) = Inr initial \<and>
         table (snd (get_validated_insights E initial w)) =
           table w @ rows_to_write E ''general_metric'' (clock w) (next_id w) dps \<and>
         length (rows_to_write E ''general_metric'' (clock w) (next_id w) dps) =
           length (filter has_both dps) \<and>
         events (snd (get_validated_insights E initial w)) =
           events w @ [DbQuery ''general_metric'' (categories dps)] @
           map DbAdd (instances_to_add E ''general_metric'' dps) @ [DbCommit]"
  using assms by (simp add: validator_no_history length_rows_to_write)

theorem validator_without_history_stores_witness:
  "insight_record (insights_with jan_feb) jan_feb \<and>
   table world_without_match = [other_metric_row, mar_row] \<and>
   matching_rows world_without_match jan_feb = [] \<and>
   fst (get_validated_insights (sample_env gateway_down (parse_as JNull)) (insights_with jan_feb)
          world_without_match) = Inr (insights_with jan_feb) \<and>
   table (snd (get_validated_insights (sample_env gateway_down (parse_as JNull))
                 (insights_with jan_feb) world_without_match)) =
     [other_metric_row, mar_row,
      \<lparr>id' = 4, metric_name = ''general_metric'', category = ''Jan'', value' = Finite 150,
        extracted_at = 7, source_graph_hash = sample_hash\<rparr>,
      \<lparr>id' = 5, metric_name = ''general_metric'', category = ''Feb'', value' = Finite 170,
        extracted_at = 7, source_graph_hash = sample_hash\<rparr>]"
proof -
  have b: "categories jan_feb \<noteq> []" by (simp add: jan_feb_categories)
  show ?thesis
    using jan_feb_record jan_feb_without_match
      validator_without_history_stores [OF jan_feb_record b jan_feb_strings jan_feb_storable
        fresh_samples(4) jan_feb_without_match, of gateway_down "parse_as JNull"]
    by (simp add: jan_feb_rows) (simp add: world_without_match_def)
qed

text \<open>
  As stated, without the conditions on the data points, C4 fails: a data point whose value
  is the integer \<open>2 ^ 1024\<close> has both keys, \<^verbatim>\<open>float\<close> raises \<^verbatim>\<open>OverflowError\<close> in the
  persistence helper, and the Validator raises instead of returning the record; nothing is
  written.
\<close>

theorem validator_without_history_raises:
  "insight_record (insights_with jan_huge) jan_huge \<and>
   categories jan_huge = [JStr ''Jan''] \<and>
   matching_rows empty_world jan_huge = [] \<and>
   fst (get_validated_insights (sample_env gateway_down (parse_as JNull)) (insights_with jan_huge)
          empty_world) = Inl OverflowError \<and>
   table (snd (get_validated_insights (sample_env gateway_down (parse_as JNull))
                 (insights_with jan_huge) empty_world)) = []"
  by (simp add: insight_record_def categories_def matching_rows_def db_query_def
        get_validated_insights_def store_new_data_in_db_def has_category_and_value_def
        new_record_def float_of_int_overflow log_event_def
        insights_with_def jan_huge_def empty_world_def)

text \<open>
  \<^bold>\<open>C5\<close> (as amended). For every list of data points (dictionaries) and every metric name
  that fits its column (at most 255 characters, no NUL), from a fresh session, when every
  data point that has both keys has a string category that fits its column (at most 255
  characters, no NUL) and a value that \<^verbatim>\<open>float\<close> and the \<^verbatim>\<open>Numeric\<close> column accept, the
  persistence helper returns without an exception, adds exactly one instance and writes
  exactly one row per data point that has both a category and a value, skips the others,
  and commits once, after all the adds.
\<close>

theorem store_new_data_in_db_one_row_per_point:
  assumes "list_all is_dict dps" and "list_all (storable E) dps"
    and "fits 255 metric" and "fresh_session w"
  shows "fst (store_new_data_in_db E (JList dps) metric w) = Inr () \<and>
         table (snd (store_new_data_in_db E (JList dps) metric w)) =
           table w @ rows_to_write E metric (clock w) (next_id w) dps \<and>
         length (rows_to_write E metric (clock w) (next_id w) dps) = length (filter has_both dps) \<and>
         length (instances_to_add E metric dps) = length (filter has_both dps) \<and>
         events (snd (store_new_data_in_db E (JList dps) metric w)) =
           events w @ map DbAdd (instances_to_add E metric dps) @ [DbCommit]"
  using assms
  by (simp add: store_new_data_in_db_rows length_rows_to_write length_instances_to_add)

theorem store_new_data_in_db_one_row_per_point_witness:
  "list_all is_dict mixed_points \<and>
   filter has_both mixed_points = jan_feb \<and>
   fst (store_new_data_in_db (sample_env gateway_down (parse_as JNull)) (JList mixed_points)
          ''general_metric'' world_without_match) = Inr () \<and>
   table (snd (store_new_data_in_db (sample_env gateway_down (parse_as JNull))
                 (JList mixed_points) ''general_metric'' world_without_match)) =
     [other_metric_row, mar_row,
      \<lparr>id' = 4, metric_name = ''general_metric'', category = ''Jan'', value' = Finite 150,
        extracted_at = 7, source_graph_hash = sample_hash\<rparr>,
      \<lparr>id' = 5, metric_name = ''general_metric'', category = ''Feb'', value' = Finite 170,
        extracted_at = 7, source_graph_hash = sample_hash\<rparr>] \<and>
   events (snd (store_new_data_in_db (sample_env gateway_down (parse_as JNull))
                  (JList mixed_points) ''general_metric'' world_without_match)) =
     [DbAdd \<lparr>new_metric_name = ''general_metric'', new_category = JStr ''Jan'',
             new_value = Finite 150, new_source_graph_hash = sample_hash\<rparr>,
      DbAdd \<lparr>new_metric_name = ''general_metric'', new_category = JStr ''Feb'',
             new_value = Finite 170, new_source_graph_hash = sample_hash\<rparr>,
      DbCommit]"
proof -
  let ?E = "sample_env gateway_down (parse_as JNull)"
  have a: "list_all is_dict mixed_points" by (simp add: mixed_points_def)
  have b: "list_all (storable ?E) mixed_points"
    by (simp add: storable_def value_storable_def mixed_points_def float_of_int_exact)
  have c: "filter has_both mixed_points = jan_feb"
    by (simp add: has_both_def mixed_points_def jan_feb_def)
  have m: "fits 255 ''general_metric''" by (simp add: fits_def has_nul_def)
  have rows: "rows_to_write ?E ''general_metric'' 7 4 mixed_points =
     [\<lparr>id' = 4, metric_name = ''general_metric'', category = ''Jan'', value' = Finite 150,
       extracted_at = 7, source_graph_hash = sample_hash\<rparr>,
      \<lparr>id' = 5, metric_name = ''general_metric'', category = ''Feb'', value' = Finite 170,
       extracted_at = 7, source_graph_hash = sample_hash\<rparr>]"
    by (simp add: row_of_def mixed_points_def float_of_int_exact)
  have inst: "instances_to_add ?E ''general_metric'' mixed_points =
     [\<lparr>new_metric_name = ''general_metric'', new_category = JStr ''Jan'', new_value = Finite 150,
       new_source_graph_hash = sample_hash\<rparr>,
      \<lparr>new_metric_name = ''general_metric'', new_category = JStr ''Feb'', new_value = Finite 170,
       new_source_graph_hash = sample_hash\<rparr>]"
    by (simp add: instances_to_add_def instance_of_def mixed_points_def float_of_int_exact)
  have w: "clock world_without_match = 7" "next_id world_without_match = 4"
    "table world_without_match = [other_metric_row, mar_row]" "events world_without_match = []"
    by (simp_all add: world_without_match_def)
  show ?thesis
    using a c store_new_data_in_db_one_row_per_point [OF a b m fresh_samples(4)]
    by (simp add: w rows inst)
qed

text \<open>
  As stated, for every list of data points, C5 fails: on a data point with both keys whose
  value is the integer \<open>2 ^ 1024\<close> the helper raises \<^verbatim>\<open>OverflowError\<close>, adds no row and
  never commits.
\<close>

theorem store_new_data_in_db_raises:
  "list_all is_dict jan_huge \<and> list_all has_both jan_huge \<and>
   store_new_data_in_db (sample_env gateway_down (parse_as JNull)) (JList jan_huge)
     ''general_metric'' empty_world = (Inl OverflowError, empty_world)"
  by (simp add: store_new_data_in_db_def has_category_and_value_def new_record_def has_both_def
        float_of_int_overflow jan_huge_def)

lemma huge_history:
  "insight_record (insights_with jan_huge) jan_huge"
  "categories jan_huge = [JStr ''Jan'']"
  "matching_rows world_with_mixed_history jan_huge = [jan_row]"
  by (simp_all add: insight_record_def insights_with_def jan_huge_def categories_def
        matching_rows_def world_with_mixed_history_def jan_row_def other_metric_row_def
        mar_row_def)

lemmas raise_defs =
  db_query_def get_validated_insights_def validation_attempt_def store_new_data_in_db_def
  has_category_and_value_def new_record_def float_of_int_overflow log_event_def
  insights_with_def jan_huge_def world_with_mixed_history_def

text \<open>
  \<^bold>\<open>C1\<close> (as amended). For an Insight Record with at least one categorized data point, called
  with a fresh session, when the store holds rows under the constant metric name with one
  of the record's categories, the second Gateway call returns a text and the text parses,
  every category is a string free of NUL characters, and every data point that has both
  keys has a category of at most 255 characters and a value that \<^verbatim>\<open>float\<close> and the
  \<^verbatim>\<open>Numeric\<close> column accept, the Validator returns the parsed refinement, and the rows of
  the original data points are committed in the same call. The second prompt shows exactly
  the matching rows.
\<close>

theorem validator_returns_refinement:
  assumes "insight_record initial dps" and "categories dps \<noteq> []"
    and "list_all string_category dps" and "list_all (storable E) dps"
    and "fresh_session w" and "matching_rows w dps \<noteq> []"
    and "generate_content E (second_prompt initial (matching_rows w dps)) = Inr text"
    and "json_loads E text = Inr refined"
  shows "fst (get_validated_insights E initial w) = Inr refined \<and>
         table (snd (get_validated_insights E initial w)) =
           table w @ rows_to_write E ''general_metric'' (clock w) (next_id w) dps \<and>
         length (rows_to_write E ''general_metric'' (clock w) (next_id w) dps) =
           length (filter has_both dps) \<and>
         events (snd (get_validated_insights E initial w)) =
           events w @
           [DbQuery ''general_metric'' (categories dps),
            GenerateContent (second_prompt initial (matching_rows w dps))] @
           map DbAdd (instances_to_add E ''general_metric'' dps) @ [DbCommit]"
  using assms by (simp add: validator_refined length_rows_to_write)

theorem validator_returns_refinement_witness:
  "insight_record (insights_with jan_feb) jan_feb \<and>
   table world_with_mixed_history = [jan_row, other_metric_row, mar_row] \<and>
   matching_rows world_with_mixed_history jan_feb = [jan_row] \<and>
   fst (get_validated_insights (sample_env (gateway_says ''ok'') (parse_as refined_insights))
          (insights_with jan_feb) world_with_mixed_history) = Inr refined_insights \<and>
   table (snd (get_validated_insights (sample_env (gateway_says ''ok'') (parse_as refined_insights))
                 (insights_with jan_feb) world_with_mixed_history)) =
     [jan_row, other_metric_row, mar_row,
      \<lparr>id' = 4, metric_name = ''general_metric'', category = ''Jan'', value' = Finite 150,
        extracted_at = 7, source_graph_hash = sample_hash\<rparr>,
      \<lparr>id' = 5, metric_name = ''general_metric'', category = ''Feb'', value' = Finite 170,
        extracted_at = 7, source_graph_hash = sample_hash\<rparr>] \<and>
   take 2 (events (snd (get_validated_insights
                          (sample_env (gateway_says ''ok'') (parse_as refined_insights))
                          (insights_with jan_feb) world_with_mixed_history))) =
     [DbQuery ''general_metric'' [JStr ''Jan'', JStr ''Feb''],
      GenerateContent (ValidationPrompt (insights_with jan_feb) [(''Jan'', Finite 100)])]"
proof -
  let ?E = "sample_env (gateway_says ''ok'') (parse_as refined_insights)"
  have b: "categories jan_feb \<noteq> []" by (simp add: jan_feb_categories)
  have c: "matching_rows world_with_mixed_history jan_feb \<noteq> []"
    by (simp add: jan_feb_mixed_history)
  have d: "generate_content ?E
             (second_prompt (insights_with jan_feb) (matching_rows world_with_mixed_history jan_feb)) =
           Inr ''ok''"
    by (simp add: sample_env_def gateway_says_def)
  have e: "json_loads ?E ''ok'' = Inr refined_insights"
    by (simp add: sample_env_def parse_as_def)
  show ?thesis
    using jan_feb_record jan_feb_mixed_history
      validator_returns_refinement [OF jan_feb_record b jan_feb_strings jan_feb_storable
        fresh_samples(3) c d e]
    by (simp add: jan_feb_rows jan_feb_categories second_prompt_def)
       (simp add: world_with_mixed_history_def jan_row_def)
qed

text \<open>
  As stated, C1 fails: with a value \<open>2 ^ 1024\<close> the persistence helper raises inside the
  \<^verbatim>\<open>try\<close> block after the refinement was parsed, raises again in the handler, and the
  Validator raises instead of returning the refinement; nothing is written.
\<close>

theorem validator_refinement_raises:
  "insight_record (insights_with jan_huge) jan_huge \<and>
   categories jan_huge = [JStr ''Jan''] \<and>
   matching_rows world_with_mixed_history jan_huge = [jan_row] \<and>
   generate_content (sample_env (gateway_says ''ok'') (parse_as refined_insights))
     (second_prompt (insights_with jan_huge) [jan_row]) = Inr ''ok'' \<and>
   json_loads (sample_env (gateway_says ''ok'') (parse_as refined_insights)) ''ok'' =
     Inr refined_insights \<and>
   fst (get_validated_insights (sample_env (gateway_says ''ok'') (parse_as refined_insights))
          (insights_with jan_huge) world_with_mixed_history) = Inl OverflowError \<and>
   table (snd (get_validated_insights (sample_env (gateway_says ''ok'') (parse_as refined_insights))
                 (insights_with jan_huge) world_with_mixed_history)) =
     [jan_row, other_metric_row, mar_row]"
proof -
  have "fst (get_validated_insights (sample_env (gateway_says ''ok'') (parse_as refined_insights))
          (insights_with jan_huge) world_with_mixed_history) = Inl OverflowError \<and>
   table (snd (get_validated_insights (sample_env (gateway_says ''ok'') (parse_as refined_insights))
                 (insights_with jan_huge) world_with_mixed_history)) =
     [jan_row, other_metric_row, mar_row]"
    by (simp add: raise_defs sample_env_def gateway_says_def parse_as_def jan_row_def
          other_metric_row_def mar_row_def)
  then show ?thesis
    by (simp add: huge_history) (simp add: sample_env_def gateway_says_def parse_as_def)
qed

text \<open>
  \<^bold>\<open>C2\<close> (as amended). For an Insight Record with at least one categorized data point and
  matching rows, called with a fresh session, when the second Gateway call raises or its
  text does not parse, every category is a string free of NUL characters, and every data
  point that has both keys has a category of at most 255 characters and a value that
  \<^verbatim>\<open>float\<close> and the \<^verbatim>\<open>Numeric\<close> column accept, the Validator returns the initial record (a
  result, not an exception), prints the failure, and commits the same rows as on the
  success path.
\<close>

theorem validator_falls_back:
  assumes "insight_record initial dps" and "categories dps \<noteq> []"
    and "list_all string_category dps" and "list_all (storable E) dps"
    and "fresh_session w" and "matching_rows w dps \<noteq> []"
    and "validation_fails E (second_prompt initial (matching_rows w dps)) e"
  shows "fst (get_validated_insights E initial w) = Inr initial \<and>
         table (snd (get_validated_insights E initial w)) =
           table w @ rows_to_write E ''general_metric'' (clock w) (next_id w) dps \<and>
         length (rows_to_write E ''general_metric'' (clock w) (next_id w) dps) =
           length (filter has_both dps) \<and>
         events (snd (get_validated_insights E initial w)) =
           events w @
           [DbQuery ''general_metric'' (categories dps),
            GenerateContent (second_prompt initial (matching_rows w dps)),
            Print e] @
           map DbAdd (instances_to_add E ''general_metric'' dps) @ [DbCommit]"
  using assms by (simp add: validator_fallback length_rows_to_write)

theorem validator_falls_back_witness:
  "matching_rows world_with_mixed_history jan_feb = [jan_row] \<and>
   validation_fails (sample_env gateway_down (parse_as refined_insights))
     (second_prompt (insights_with jan_feb) [jan_row]) GatewayError \<and>
   fst (get_validated_insights (sample_env gateway_down (parse_as refined_insights))
          (insights_with jan_feb) world_with_mixed_history) = Inr (insights_with jan_feb) \<and>
   map (\<lambda>r. (id' r, category r, value' r))
     (table (snd (get_validated_insights (sample_env gateway_down (parse_as refined_insights))
                    (insights_with jan_feb) world_with_mixed_history))) =
     [(1, ''Jan'', Finite 100), (2, ''Jan'', Finite 9), (3, ''Mar'', Finite 120),
      (4, ''Jan'', Finite 150), (5, ''Feb'', Finite 170)] \<and>
   validation_fails (sample_env (gateway_says ''not json'') (parse_as refined_insights))
     (second_prompt (insights_with jan_feb) [jan_row]) JSONDecodeError \<and>
   fst (get_validated_insights (sample_env (gateway_says ''not json'') (parse_as refined_insights))
          (insights_with jan_feb) world_with_mixed_history) = Inr (insights_with jan_feb) \<and>
   map (\<lambda>r. (id' r, category r, value' r))
     (table (snd (get_validated_insights (sample_env (gateway_says ''not json'') (parse_as refined_insights))
                    (insights_with jan_feb) world_with_mixed_history))) =
     [(1, ''Jan'', Finite 100), (2, ''Jan'', Finite 9), (3, ''Mar'', Finite 120),
      (4, ''Jan'', Finite 150), (5, ''Feb'', Finite 170)]"
proof -
  let ?E = "sample_env gateway_down (parse_as refined_insights)"
  let ?F = "sample_env (gateway_says ''not json'') (parse_as refined_insights)"
  have b: "categories jan_feb \<noteq> []" by (simp add: jan_feb_categories)
  have c: "matching_rows world_with_mixed_history jan_feb \<noteq> []"
    by (simp add: jan_feb_mixed_history)
  have d: "validation_fails ?E
             (second_prompt (insights_with jan_feb) (matching_rows world_with_mixed_history jan_feb))
             GatewayError"
    by (simp add: validation_fails_def sample_env_def gateway_down_def)
  have d': "validation_fails ?F
             (second_prompt (insights_with jan_feb) (matching_rows world_with_mixed_history jan_feb))
             JSONDecodeError"
    by (simp add: validation_fails_def sample_env_def gateway_says_def parse_as_def)
  show ?thesis
    using jan_feb_mixed_history d d'
      validator_falls_back [OF jan_feb_record b jan_feb_strings jan_feb_storable
        fresh_samples(3) c d]
      validator_falls_back [OF jan_feb_record b jan_feb_strings jan_feb_storable
        fresh_samples(3) c d']
    by (simp add: jan_feb_rows)
       (simp add: world_with_mixed_history_def jan_row_def other_metric_row_def mar_row_def)
qed

text \<open>
  As stated, C2 fails: with a value \<open>2 ^ 1024\<close> the persistence helper raises in the
  \<^verbatim>\<open>except\<close> handler, so the caller gets an exception and not the initial record, and
  nothing is written.
\<close>

theorem validator_fallback_raises:
  "insight_record (insights_with jan_huge) jan_huge \<and>
   categories jan_huge = [JStr ''Jan''] \<and>
   matching_rows world_with_mixed_history jan_huge = [jan_row] \<and>
   validation_fails (sample_env gateway_down (parse_as refined_insights))
     (second_prompt (insights_with jan_huge) [jan_row]) GatewayError \<and>
   fst (get_validated_insights (sample_env gateway_down (parse_as refined_insights))
          (insights_with jan_huge) world_with_mixed_history) = Inl OverflowError \<and>
   table (snd (get_validated_insights (sample_env gateway_down (parse_as refined_insights))
                 (insights_with jan_huge) world_with_mixed_history)) =
     [jan_row, other_metric_row, mar_row]"
proof -
  have "fst (get_validated_insights (sample_env gateway_down (parse_as refined_insights))
          (insights_with jan_huge) world_with_mixed_history) = Inl OverflowError \<and>
   table (snd (get_validated_insights (sample_env gateway_down (parse_as refined_insights))
                 (insights_with jan_huge) world_with_mixed_history)) =
     [jan_row, other_metric_row, mar_row]"
    by (simp add: raise_defs sample_env_def gateway_down_def jan_row_def
          other_metric_row_def mar_row_def)
  then show ?thesis
    by (simp add: huge_history) (simp add: validation_fails_def sample_env_def gateway_down_def)
qed

subsection \<open>One bucket\<close>

lemma bucket_step_refl: "bucket_step m w w"
  by (simp add: bucket_step_def)

lemma bucket_step_trans:
  assumes "bucket_step m w w'" and "bucket_step m w' w''"
  shows "bucket_step m w w''"
proof -
  from assms(1) obtain new evs where 1:
    "table w' = table w @ new" "events w' = events w @ evs" "list_all (in_bucket m) evs"
    "list_all (\<lambda>r. new_metric_name r = m) (session w) \<longrightarrow>
       list_all (\<lambda>r. metric_name r = m) new \<and> list_all (\<lambda>r. new_metric_name r = m) (session w')"
    unfolding bucket_step_def by blast
  from assms(2) obtain new' evs' where 2:
    "table w'' = table w' @ new'" "events w'' = events w' @ evs'" "list_all (in_bucket m) evs'"
    "list_all (\<lambda>r. new_metric_name r = m) (session w') \<longrightarrow>
       list_all (\<lambda>r. metric_name r = m) new' \<and> list_all (\<lambda>r. new_metric_name r = m) (session w'')"
    unfolding bucket_step_def by blast
  show ?thesis
    unfolding bucket_step_def
  proof (intro exI conjI)
    show "table w'' = table w @ (new @ new')" using 1 2 by simp
    show "events w'' = events w @ (evs @ evs')" using 1 2 by simp
    show "list_all (in_bucket m) (evs @ evs')" using 1 2 by simp
    show "list_all (\<lambda>r. new_metric_name r = m) (session w) \<longrightarrow>
       list_all (\<lambda>r. metric_name r = m) (new @ new') \<and>
       list_all (\<lambda>r. new_metric_name r = m) (session w'')"
      using 1 2 by simp
  qed
qed

lemma bucket_step_log: "in_bucket m ev \<Longrightarrow> bucket_step m w (log_event ev w)"
  by (simp add: bucket_step_def log_event_def)

lemma bucket_step_add: "new_metric_name r = m \<Longrightarrow> bucket_step m w (db_add r w)"
  by (simp add: bucket_step_def db_add_def log_event_def)

lemma insert_instance_metric:
  "insert_instance E now i p = Inr r \<Longrightarrow> metric_name r = new_metric_name p"
  by (auto simp: insert_instance_def varchar_def split: sum.splits if_splits)

lemma insert_all_metric:
  "insert_all E now i ps = Inr rows \<Longrightarrow> list_all (\<lambda>r. new_metric_name r = m) ps \<Longrightarrow>
     list_all (\<lambda>r. metric_name r = m) rows"
proof (induction ps arbitrary: i rows)
  case Nil
  then show ?case by simp
next
  case (Cons p ps)
  from Cons.prems(1) obtain r rs where r: "insert_instance E now i p = Inr r"
    and rs: "insert_all E now (Suc i) ps = Inr rs" and rows: "rows = r # rs"
    by (auto split: sum.splits)
  from r have "metric_name r = new_metric_name p" by (rule insert_instance_metric)
  moreover from Cons.IH [OF rs] Cons.prems(2) have "list_all (\<lambda>r. metric_name r = m) rs" by simp
  ultimately show ?case using rows Cons.prems(2) by simp
qed

lemma bucket_step_commit: "bucket_step m w (snd (db_commit E w))"
proof (cases "inactive w")
  case True
  then show ?thesis by (simp add: db_commit_def bucket_step_refl)
next
  case False
  show ?thesis
  proof (cases "insert_all E (clock w) (next_id w) (session w)")
    case (Inl e)
    with False show ?thesis by (simp add: db_commit_def bucket_step_def log_event_def)
  next
    case (Inr rows)
    with False show ?thesis
      by (auto simp: db_commit_def bucket_step_def log_event_def dest: insert_all_metric)
  qed
qed

lemma new_record_metric: "new_record E m dp = Inr r \<Longrightarrow> new_metric_name r = m"
  by (auto simp: new_record_def split: sum.splits)

lemma bucket_step_store_loop: "bucket_step m w (snd (store_loop E dps m w))"
proof (induction dps arbitrary: w)
  case Nil
  show ?case by (simp add: bucket_step_refl)
next
  case (Cons dp dps)
  show ?case
  proof (cases "has_category_and_value dp")
    case (Inl e)
    then show ?thesis by (simp add: bucket_step_refl)
  next
    case (Inr b)
    show ?thesis
    proof (cases b)
      case False
      with Inr Cons.IH show ?thesis by simp
    next
      case True
      show ?thesis
      proof (cases "new_record E m dp")
        case (Inl e)
        with Inr True show ?thesis by (simp add: bucket_step_refl)
      next
        case r: (Inr r)
        then have "bucket_step m w (db_add r w)"
          by (intro bucket_step_add new_record_metric)
        moreover have "bucket_step m (db_add r w) (snd (store_loop E dps m (db_add r w)))"
          by (rule Cons.IH)
        ultimately show ?thesis
          using Inr True r by (simp add: bucket_step_trans)
      qed
    qed
  qed
qed

lemma bucket_step_store: "bucket_step m w (snd (store_new_data_in_db E x m w))"
proof (cases "py_iter x")
  case (Inl e)
  then show ?thesis by (simp add: store_new_data_in_db_def bucket_step_refl)
next
  case (Inr dps)
  have loop: "bucket_step m w (snd (store_loop E dps m w))" by (rule bucket_step_store_loop)
  show ?thesis
  proof (cases "store_loop E dps m w")
    case (Pair res w')
    with loop have "bucket_step m w w'" by simp
    moreover have "bucket_step m w' (snd (db_commit E w'))" by (rule bucket_step_commit)
    ultimately show ?thesis
      using Inr Pair by (cases res) (auto simp: store_new_data_in_db_def intro: bucket_step_trans)
  qed
qed

lemma bucket_step_validation_attempt:
  "bucket_step m w (snd (validation_attempt E p x m w))"
proof -
  have 1: "bucket_step m w (log_event (GenerateContent p) w)"
    by (rule bucket_step_log) simp
  have 2: "bucket_step m (log_event (GenerateContent p) w)
             (snd (store_new_data_in_db E x m (log_event (GenerateContent p) w)))"
    by (rule bucket_step_store)
  from bucket_step_trans [OF 1 2] 1 show ?thesis
    by (auto simp: validation_attempt_def Let_def split: sum.splits prod.splits)
qed

lemma bucket_step_validator:
  "bucket_step ''general_metric'' w (snd (get_validated_insights E initial w))"
proof (cases "py_get initial ''extracted_data'' (JList [])")
  case (Inl e)
  then show ?thesis by (simp add: get_validated_insights_def bucket_step_refl)
next
  case x: (Inr x)
  show ?thesis
  proof (cases "py_iter x")
    case (Inl e)
    with x show ?thesis by (simp add: get_validated_insights_def bucket_step_refl)
  next
    case items: (Inr items)
    show ?thesis
    proof (cases "categories_of items")
      case (Inl e)
      with x items show ?thesis by (simp add: get_validated_insights_def bucket_step_refl)
    next
      case cs: (Inr cs)
      define w1 where "w1 = log_event (DbQuery ''general_metric'' cs) w"
      define hist where "hist = fst (db_query ''general_metric'' cs w)"
      have q: "db_query ''general_metric'' cs w = (hist, w1)"
        by (simp add: db_query_def hist_def w1_def)
      have 1: "bucket_step ''general_metric'' w w1"
        unfolding w1_def by (rule bucket_step_log) simp
      have store: "\<And>v. bucket_step ''general_metric'' v
                     (snd (store_new_data_in_db E x ''general_metric'' v))"
        by (rule bucket_step_store)
      have attempt: "\<And>p r v. validation_attempt E p x ''general_metric'' w1 = (r, v)
                        \<Longrightarrow> bucket_step ''general_metric'' w v"
      proof -
        fix p r v
        assume "validation_attempt E p x ''general_metric'' w1 = (r, v)"
        with bucket_step_validation_attempt [of "''general_metric''" w1 E p x]
        have "bucket_step ''general_metric'' w1 v" by simp
        with 1 show "bucket_step ''general_metric'' w v" by (rule bucket_step_trans)
      qed
      have fallback: "\<And>p r v e r' v'. validation_attempt E p x ''general_metric'' w1 = (r, v) \<Longrightarrow>
            store_new_data_in_db E x ''general_metric'' (log_event (Print e) v) = (r', v')
            \<Longrightarrow> bucket_step ''general_metric'' w v'"
      proof -
        fix p r v e r' v'
        assume a: "validation_attempt E p x ''general_metric'' w1 = (r, v)"
          and s: "store_new_data_in_db E x ''general_metric'' (log_event (Print e) v) = (r', v')"
        have "bucket_step ''general_metric'' v (log_event (Print e) v)"
          by (rule bucket_step_log) simp
        moreover from s store [of "log_event (Print e) v"]
        have "bucket_step ''general_metric'' (log_event (Print e) v) v'" by simp
        ultimately show "bucket_step ''general_metric'' w v'"
          using attempt [OF a] by (blast intro: bucket_step_trans)
      qed
      have direct: "\<And>r v. store_new_data_in_db E x ''general_metric'' w1 = (r, v)
                        \<Longrightarrow> bucket_step ''general_metric'' w v"
      proof -
        fix r v
        assume "store_new_data_in_db E x ''general_metric'' w1 = (r, v)"
        with store [of w1] have "bucket_step ''general_metric'' w1 v" by simp
        with 1 show "bucket_step ''general_metric'' w v" by (blast intro: bucket_step_trans)
      qed
      show ?thesis
        using x items cs q 1 attempt fallback direct
        by (auto simp: get_validated_insights_def bucket_step_refl
                 split: sum.splits prod.splits)
    qed
  qed
qed

subsection \<open>What the second prompt shows\<close>

lemma store_event_prompt: "is_store_event ev \<Longrightarrow> prompt_from_bucket m cs t ev"
  by (cases ev) simp_all

lemma store_events_prompt:
  "list_all is_store_event evs \<Longrightarrow> list_all (prompt_from_bucket m cs t) evs"
  by (induction evs) (auto simp: store_event_prompt)

lemma store_loop_events:
  "\<exists>evs. events (snd (store_loop E dps m w)) = events w @ evs \<and> list_all is_store_event evs"
proof (induction dps arbitrary: w)
  case Nil
  show ?case by simp
next
  case (Cons dp dps)
  show ?case
  proof (cases "has_category_and_value dp")
    case (Inl e)
    then show ?thesis by simp
  next
    case (Inr b)
    show ?thesis
    proof (cases b)
      case False
      with Inr Cons.IH show ?thesis by simp
    next
      case True
      show ?thesis
      proof (cases "new_record E m dp")
        case (Inl e)
        with Inr True show ?thesis by simp
      next
        case r: (Inr r)
        from Cons.IH [of "db_add r w"] obtain evs where
          "events (snd (store_loop E dps m (db_add r w))) = events (db_add r w) @ evs"
          "list_all is_store_event evs" by blast
        then have "events (snd (store_loop E dps m (db_add r w))) = events w @ (DbAdd r # evs) \<and>
              list_all is_store_event (DbAdd r # evs)"
          by (simp add: db_add_def)
        then show ?thesis using Inr True r by auto
      qed
    qed
  qed
qed

lemma db_commit_events:
  "\<exists>evs. events (snd (db_commit E w)) = events w @ evs \<and> list_all is_store_event evs"
  by (auto simp: db_commit_def split: sum.splits)

lemma store_events:
  "\<exists>evs. events (snd (store_new_data_in_db E x m w)) = events w @ evs \<and>
         list_all is_store_event evs"
proof (cases "py_iter x")
  case (Inl e)
  then show ?thesis by (simp add: store_new_data_in_db_def)
next
  case (Inr dps)
  obtain res w' where loop: "store_loop E dps m w = (res, w')" by (cases "store_loop E dps m w")
  with store_loop_events [of E dps m w] obtain evs where
    evs: "events w' = events w @ evs" "list_all is_store_event evs" by auto
  from db_commit_events [of E w'] obtain evs' where
    evs': "events (snd (db_commit E w')) = events w' @ evs'" "list_all is_store_event evs'" by blast
  show ?thesis
  proof (cases res)
    case (Inl e)
    with Inr loop evs show ?thesis by (auto simp: store_new_data_in_db_def)
  next
    case r: (Inr u)
    have "events (snd (db_commit E w')) = events w @ (evs @ evs') \<and>
          list_all is_store_event (evs @ evs')"
      using evs evs' by simp
    with Inr loop r show ?thesis by (auto simp: store_new_data_in_db_def)
  qed
qed

lemma validation_attempt_events:
  "\<exists>evs. events (snd (validation_attempt E p x m w)) = events w @ GenerateContent p # evs \<and>
         list_all is_store_event evs"
proof -
  from store_events [of E x m "log_event (GenerateContent p) w"] obtain evs where
    "events (snd (store_new_data_in_db E x m (log_event (GenerateContent p) w))) =
       events (log_event (GenerateContent p) w) @ evs" "list_all is_store_event evs"
    by blast
  then have s: "events (snd (store_new_data_in_db E x m (log_event (GenerateContent p) w))) =
       events w @ GenerateContent p # evs \<and> list_all is_store_event evs"
    by simp
  show ?thesis
    using s
    by (auto simp: validation_attempt_def Let_def split: sum.splits prod.splits)
qed

lemma validator_prompts:
  assumes "insight_record initial dps"
  shows "\<exists>evs. events (snd (get_validated_insights E initial w)) = events w @ evs \<and>
           list_all (prompt_from_bucket ''general_metric'' (categories dps) (table w)) evs"
proof (cases "categories dps = [] \<or> dps = []")
  case True
  then have "categories dps = []" by (auto simp: categories_def)
  with assms have "get_validated_insights E initial w = (Inr initial, w)"
    by (rule validator_early_return)
  then show ?thesis by simp
next
  case False
  let ?cs = "categories dps"
  let ?P = "prompt_from_bucket ''general_metric'' ?cs (table w)"
  define w1 where "w1 = log_event (DbQuery ''general_metric'' ?cs) w"
  have ev1: "events w1 = events w @ [DbQuery ''general_metric'' ?cs]" by (simp add: w1_def)
  have unfold: "get_validated_insights E initial w =
      (case db_query ''general_metric'' ?cs w of
         (Inl e, w1) \<Rightarrow> (Inl e, w1)
       | (Inr historical_records, w1) \<Rightarrow>
           if historical_records = [] then
             (case store_new_data_in_db E (JList dps) ''general_metric'' w1 of
                (Inl e, w2) \<Rightarrow> (Inl e, w2)
              | (Inr u, w2) \<Rightarrow> (Inr initial, w2))
           else
             (case validation_attempt E
                     (ValidationPrompt initial
                        (map (\<lambda>r. (category r, value' r)) historical_records))
                     (JList dps) ''general_metric'' w1 of
                (Inr final_insights, w2) \<Rightarrow> (Inr final_insights, w2)
              | (Inl e, w2) \<Rightarrow>
                  (case store_new_data_in_db E (JList dps) ''general_metric''
                          (log_event (Print e) w2) of
                     (Inl e', w3) \<Rightarrow> (Inl e', w3)
                   | (Inr u, w3) \<Rightarrow> (Inr initial, w3))))"
    using assms False
    by (simp add: get_validated_insights_def insight_record_def categories_of_dicts)
  show ?thesis
  proof (cases "fst (db_query ''general_metric'' ?cs w)")
    case (Inl e)
    then have "db_query ''general_metric'' ?cs w = (Inl e, w1)"
      by (simp add: db_query_def w1_def split: if_splits)
    then show ?thesis using ev1 by (simp add: unfold)
  next
    case (Inr hist)
    then have q: "db_query ''general_metric'' ?cs w = (Inr hist, w1)"
      and hist: "hist = [r \<leftarrow> table w. metric_name r = ''general_metric'' \<and> JStr (category r) \<in> set ?cs]"
      by (auto simp: db_query_def w1_def split: if_splits)
    define p where "p = ValidationPrompt initial (map (\<lambda>r. (category r, value' r)) hist)"
    have pP: "?P (GenerateContent p)" by (simp add: p_def hist)
    show ?thesis
    proof (cases "hist = []")
      case True
      from store_events [of E "JList dps" "''general_metric''" w1] obtain evs where
        "events (snd (store_new_data_in_db E (JList dps) ''general_metric'' w1)) = events w1 @ evs"
        "list_all is_store_event evs" by blast
      then have "events (snd (store_new_data_in_db E (JList dps) ''general_metric'' w1)) =
            events w @ (DbQuery ''general_metric'' ?cs # evs) \<and>
            list_all ?P (DbQuery ''general_metric'' ?cs # evs)"
        by (simp add: ev1 store_events_prompt)
      then show ?thesis
        using True q by (auto simp: unfold split: sum.splits prod.splits)
    next
      case False
      obtain res w2 where va: "validation_attempt E p (JList dps) ''general_metric'' w1 = (res, w2)"
        by (cases "validation_attempt E p (JList dps) ''general_metric'' w1")
      with validation_attempt_events [of E p "JList dps" "''general_metric''" w1] obtain evs where
        evs: "events w2 = events w1 @ GenerateContent p # evs" "list_all is_store_event evs"
        by auto
      have w2: "events w2 = events w @ (DbQuery ''general_metric'' ?cs # GenerateContent p # evs) \<and>
            list_all ?P (DbQuery ''general_metric'' ?cs # GenerateContent p # evs)"
        using evs pP by (simp add: ev1 store_events_prompt)
      show ?thesis
      proof (cases res)
        case r: (Inr final)
        with False q va w2 show ?thesis
          by (auto simp: unfold p_def [symmetric])
      next
        case l: (Inl e)
        from store_events [of E "JList dps" "''general_metric''" "log_event (Print e) w2"]
        obtain evs' where
          "events (snd (store_new_data_in_db E (JList dps) ''general_metric''
                          (log_event (Print e) w2))) =
             events (log_event (Print e) w2) @ evs'"
          "list_all is_store_event evs'" by blast
        then have "events (snd (store_new_data_in_db E (JList dps) ''general_metric''
                          (log_event (Print e) w2))) =
             events w @ (DbQuery ''general_metric'' ?cs # GenerateContent p # evs @ Print e # evs') \<and>
            list_all ?P (DbQuery ''general_metric'' ?cs # GenerateContent p # evs @ Print e # evs')"
          using w2 by (simp add: store_events_prompt)
        with False q va l show ?thesis
          by (auto simp: unfold p_def [symmetric] split: sum.splits prod.splits)
      qed
    qed
  qed
qed

subsection \<open>The endpoints\<close>

lemma close_session_fields [simp]:
  "fst (close_session r) = fst r" "table (snd (close_session r)) = table (snd r)"
  "events (snd (close_session r)) = events (snd r)" "session (snd (close_session r)) = []"
  by (simp_all add: close_session_def)

lemma open_session_fields [simp]:
  "table (open_session w) = table w" "events (open_session w) = events w"
  "next_id (open_session w) = next_id w" "clock (open_session w) = clock w"
  "session (open_session w) = []" "inactive (open_session w) = False"
  by (simp_all add: open_session_def)

lemma fresh_open_session [simp]: "fresh_session (open_session w)"
  by (simp add: fresh_session_def)

lemma bucket_step_analyze_image:
  "bucket_step ''general_metric'' w (snd (analyze_image E img w))"
proof -
  define w1 where "w1 = log_event (GenerateContent (ExtractionPrompt img)) w"
  have 1: "bucket_step ''general_metric'' w w1"
    unfolding w1_def by (rule bucket_step_log) simp
  have 2: "\<And>j r v. get_validated_insights E j w1 = (r, v) \<Longrightarrow> bucket_step ''general_metric'' w v"
  proof -
    fix j r v
    assume "get_validated_insights E j w1 = (r, v)"
    with bucket_step_validator [of w1 E j] have "bucket_step ''general_metric'' w1 v" by simp
    with 1 show "bucket_step ''general_metric'' w v" by (rule bucket_step_trans)
  qed
  show ?thesis
    using 1 2
    by (auto simp: analyze_image_def analyze_graph_with_gemini_def Let_def w1_def[symmetric]
             split: sum.splits prod.splits)
qed

lemma bucket_step_written:
  assumes "bucket_step m w0 w'" and "session w0 = []"
    and "table w0 = table w" and "events w0 = events w"
    and "table w'' = table w'" and "events w'' = events w'"
  shows "written_in_bucket m w w''"
  using assms by (auto simp: bucket_step_def written_in_bucket_def)

lemma written_close_session:
  assumes "bucket_step m (open_session w) (snd r)"
  shows "written_in_bucket m w (snd (close_session r))"
  using assms
  by (rule bucket_step_written) simp_all

lemma written_analyze_uploaded_graph:
  "written_in_bucket ''general_metric'' w (snd (analyze_uploaded_graph E content_type image_content w))"
  unfolding analyze_uploaded_graph_def Let_def
  by (rule written_close_session)
     (auto simp: bucket_step_refl bucket_step_analyze_image split: option.splits sum.splits)

lemma written_analyze_screen_capture:
  "written_in_bucket ''general_metric'' w (snd (analyze_screen_capture E image_data w))"
  unfolding analyze_screen_capture_def Let_def
  by (rule written_close_session)
     (auto simp: bucket_step_refl bucket_step_analyze_image split: sum.splits)

lemma written_get_historical_data:
  "written_in_bucket m w (snd (get_historical_data E w))"
  by (simp add: get_historical_data_def Let_def written_in_bucket_def)

lemma db_query_rows:
  "(case fst (db_query m cs w) of
      Inl e \<Rightarrow> True
    | Inr rows \<Rightarrow> rows = [r \<leftarrow> table w. metric_name r = m \<and> JStr (category r) \<in> set cs])"
  by (simp add: db_query_def)

text \<open>
  \<^bold>\<open>C6.\<close> Whatever an endpoint does, the table only grows, every row it gains carries the
  metric name \<^verbatim>\<open>general_metric\<close>, and every lookup and every added instance in the trace
  is on that same name; the same holds for the Validator called with nothing pending in the
  session. The lookup filters on the name it is given: the rows it returns are exactly the
  rows of the table with that metric name and one of the categories, and every second
  prompt the Validator sends shows exactly the rows of the table filed under
  \<^verbatim>\<open>general_metric\<close> with one of the record's categories. The image, and with it the
  subject of the chart, plays no part.
\<close>

theorem one_metric_bucket:
  "written_in_bucket ''general_metric'' w
     (snd (analyze_uploaded_graph E content_type image_content w)) \<and>
   written_in_bucket ''general_metric'' w (snd (analyze_screen_capture E image_data w)) \<and>
   written_in_bucket ''general_metric'' w (snd (get_historical_data E w)) \<and>
   (session w = [] \<longrightarrow>
      written_in_bucket ''general_metric'' w (snd (get_validated_insights E initial w))) \<and>
   (case fst (db_query m cs w) of
      Inl e \<Rightarrow> True
    | Inr rows \<Rightarrow> rows = [r \<leftarrow> table w. metric_name r = m \<and> JStr (category r) \<in> set cs]) \<and>
   (insight_record initial dps \<longrightarrow>
      take (length (events w)) (events (snd (get_validated_insights E initial w))) = events w \<and>
      list_all (prompt_from_bucket ''general_metric'' (categories dps) (table w))
        (drop (length (events w)) (events (snd (get_validated_insights E initial w)))))"
proof (intro conjI impI)
  assume "session w = []"
  with bucket_step_validator [of w E initial]
  show "written_in_bucket ''general_metric'' w (snd (get_validated_insights E initial w))"
    by (rule bucket_step_written) simp_all
next
  assume "insight_record initial dps"
  then obtain evs where evs:
    "events (snd (get_validated_insights E initial w)) = events w @ evs"
    "list_all (prompt_from_bucket ''general_metric'' (categories dps) (table w)) evs"
    using validator_prompts by blast
  from evs show "take (length (events w)) (events (snd (get_validated_insights E initial w))) =
      events w" by simp
  from evs show "list_all (prompt_from_bucket ''general_metric'' (categories dps) (table w))
        (drop (length (events w)) (events (snd (get_validated_insights E initial w))))"
    by simp
qed (rule written_analyze_uploaded_graph written_analyze_screen_capture
       written_get_historical_data db_query_rows)+

theorem one_metric_bucket_witness:
  "session world_with_mixed_history = [] \<and>
   table world_with_mixed_history = [jan_row, other_metric_row, mar_row] \<and>
   metric_name other_metric_row = ''revenue'' \<and> category other_metric_row = ''Jan'' \<and>
   fst (db_query ''general_metric'' [JStr ''Jan'', JStr ''Feb''] world_with_mixed_history) =
     Inr [jan_row] \<and>
   written_in_bucket ''general_metric'' world_with_mixed_history
     (snd (get_validated_insights (sample_env (gateway_says ''ok'') (parse_as refined_insights))
             (insights_with jan_feb) world_with_mixed_history)) \<and>
   map metric_name
     (table (snd (get_validated_insights (sample_env (gateway_says ''ok'') (parse_as refined_insights))
                    (insights_with jan_feb) world_with_mixed_history))) =
     [''general_metric'', ''revenue'', ''general_metric'', ''general_metric'', ''general_metric''] \<and>
   take 2 (events (snd (get_validated_insights
                          (sample_env (gateway_says ''ok'') (parse_as refined_insights))
                          (insights_with jan_feb) world_with_mixed_history))) =
     [DbQuery ''general_metric'' [JStr ''Jan'', JStr ''Feb''],
      GenerateContent (ValidationPrompt (insights_with jan_feb) [(''Jan'', Finite 100)])]"
proof -
  let ?E = "sample_env (gateway_says ''ok'') (parse_as refined_insights)"
  have s: "session world_with_mixed_history = []" by (simp add: world_with_mixed_history_def)
  have b: "categories jan_feb \<noteq> []" by (simp add: jan_feb_categories)
  have c: "matching_rows world_with_mixed_history jan_feb \<noteq> []"
    by (simp add: jan_feb_mixed_history)
  have d: "generate_content ?E
             (second_prompt (insights_with jan_feb) (matching_rows world_with_mixed_history jan_feb)) =
           Inr ''ok''"
    by (simp add: sample_env_def gateway_says_def)
  have e: "json_loads ?E ''ok'' = Inr refined_insights"
    by (simp add: sample_env_def parse_as_def)
  have run: "get_validated_insights ?E (insights_with jan_feb) world_with_mixed_history =
           (Inr refined_insights,
            world_after_store ?E ''general_metric'' jan_feb
              (log_event (GenerateContent (second_prompt (insights_with jan_feb)
                                             (matching_rows world_with_mixed_history jan_feb)))
                 (log_event (DbQuery ''general_metric'' (categories jan_feb))
                    world_with_mixed_history)))"
    by (rule validator_refined [OF jan_feb_record b jan_feb_strings jan_feb_storable
          fresh_samples(3) c d e])
  have q: "fst (db_query ''general_metric'' [JStr ''Jan'', JStr ''Feb''] world_with_mixed_history) =
     Inr [jan_row]"
    by (simp add: db_query_def world_with_mixed_history_def jan_row_def other_metric_row_def
          mar_row_def)
  have rest: "table world_with_mixed_history = [jan_row, other_metric_row, mar_row] \<and>
   metric_name other_metric_row = ''revenue'' \<and> category other_metric_row = ''Jan'' \<and>
   map metric_name
     (table (snd (get_validated_insights ?E (insights_with jan_feb) world_with_mixed_history))) =
     [''general_metric'', ''revenue'', ''general_metric'', ''general_metric'', ''general_metric''] \<and>
   take 2 (events (snd (get_validated_insights ?E (insights_with jan_feb)
                          world_with_mixed_history))) =
     [DbQuery ''general_metric'' [JStr ''Jan'', JStr ''Feb''],
      GenerateContent (ValidationPrompt (insights_with jan_feb) [(''Jan'', Finite 100)])]"
    by (simp add: run jan_feb_rows jan_feb_categories jan_feb_mixed_history second_prompt_def)
       (simp add: world_with_mixed_history_def jan_row_def other_metric_row_def mar_row_def)
  show ?thesis
    using s q rest
      one_metric_bucket [of world_with_mixed_history ?E _ _ _ "insights_with jan_feb"]
    by simp
qed

lemma status_code_propagated:
  "\<not> is_http_exception e \<Longrightarrow> status_code (Inl e) = 500"
  by (cases e) simp_all

lemma analyze_image_extraction_fails:
  assumes "extraction_fails E img"
  shows "status_code (fst (analyze_image E img w)) = 500 \<and>
         snd (analyze_image E img w) = log_event (GenerateContent (ExtractionPrompt img)) w"
  using assms
  by (auto simp: extraction_fails_def analyze_image_def analyze_graph_with_gemini_def Let_def
        status_code_propagated split: sum.splits)

lemma analyze_uploaded_graph_image:
  assumes "content_type = Some ct" and "startswith ct ''image/''"
    and "image_open E image_content = Inr img"
  shows "analyze_uploaded_graph E content_type image_content w =
           close_session (analyze_image E img (open_session w))"
  using assms by (simp add: analyze_uploaded_graph_def)

lemma analyze_screen_capture_image:
  assumes "decode_screen_capture E image_data = Inr img"
  shows "analyze_screen_capture E image_data w =
           close_session (analyze_image E img (open_session w))"
  using assms by (simp add: analyze_screen_capture_def)

text \<open>
  \<^bold>\<open>C7.\<close> When the extraction pass fails (the Gateway call raises, or its text does not
  parse), both analyze endpoints answer with status 500; the trace gains exactly one
  Gateway call (no retry) and nothing else (no lookup, no add, no commit, no second call),
  and the table is unchanged.
\<close>

theorem extraction_failure_is_fatal:
  assumes "extraction_fails E img"
  shows "(content_type = Some ct \<and> startswith ct ''image/'' \<and>
          image_open E image_content = Inr img \<longrightarrow>
            status_code (fst (analyze_uploaded_graph E content_type image_content w)) = 500 \<and>
            table (snd (analyze_uploaded_graph E content_type image_content w)) = table w \<and>
            events (snd (analyze_uploaded_graph E content_type image_content w)) =
              events w @ [GenerateContent (ExtractionPrompt img)]) \<and>
         (decode_screen_capture E image_data = Inr img \<longrightarrow>
            status_code (fst (analyze_screen_capture E image_data w)) = 500 \<and>
            table (snd (analyze_screen_capture E image_data w)) = table w \<and>
            events (snd (analyze_screen_capture E image_data w)) =
              events w @ [GenerateContent (ExtractionPrompt img)])"
  using analyze_image_extraction_fails [OF assms, of "open_session w"]
  by (simp add: analyze_uploaded_graph_image analyze_screen_capture_image)

theorem extraction_failure_is_fatal_witness:
  "extraction_fails (sample_env gateway_down (parse_as refined_insights)) (Image ''png'') \<and>
   status_code (fst (analyze_uploaded_graph (sample_env gateway_down (parse_as refined_insights))
                       (Some ''image/png'') ''png'' world_with_history)) = 500 \<and>
   table (snd (analyze_uploaded_graph (sample_env gateway_down (parse_as refined_insights))
                 (Some ''image/png'') ''png'' world_with_history)) = [jan_row] \<and>
   events (snd (analyze_uploaded_graph (sample_env gateway_down (parse_as refined_insights))
                  (Some ''image/png'') ''png'' world_with_history)) =
     [GenerateContent (ExtractionPrompt (Image ''png''))] \<and>
   extraction_fails (sample_env (gateway_says ''not json'') (parse_as refined_insights)) (Image ''png'') \<and>
   status_code (fst (analyze_screen_capture (sample_env (gateway_says ''not json'') (parse_as refined_insights))
                       ''data:image/png;base64,png'' world_with_history)) = 500 \<and>
   table (snd (analyze_screen_capture (sample_env (gateway_says ''not json'') (parse_as refined_insights))
                 ''data:image/png;base64,png'' world_with_history)) = [jan_row] \<and>
   events (snd (analyze_screen_capture (sample_env (gateway_says ''not json'') (parse_as refined_insights))
                  ''data:image/png;base64,png'' world_with_history)) =
     [GenerateContent (ExtractionPrompt (Image ''png''))]"
proof -
  let ?E = "sample_env gateway_down (parse_as refined_insights)"
  let ?F = "sample_env (gateway_says ''not json'') (parse_as refined_insights)"
  have a: "extraction_fails ?E (Image ''png'')"
    by (simp add: extraction_fails_def sample_env_def gateway_down_def)
  have b: "extraction_fails ?F (Image ''png'')"
    by (simp add: extraction_fails_def sample_env_def gateway_says_def parse_as_def)
  have c: "startswith ''image/png'' ''image/''" by (simp add: startswith_def)
  have d: "image_open ?E ''png'' = Inr (Image ''png'')" by (simp add: sample_env_def)
  have e: "decode_screen_capture ?F ''data:image/png;base64,png'' = Inr (Image ''png'')"
    by (simp add: decode_screen_capture_def sample_env_def)
  show ?thesis
    using a b c d e
      extraction_failure_is_fatal [OF a, where content_type = "Some ''image/png''"
        and ct = "''image/png''" and image_content = "''png''" and w = world_with_history]
      extraction_failure_is_fatal [OF b, where image_data = "''data:image/png;base64,png''"
        and w = world_with_history]
    by (simp add: world_with_history_def)
qed

lemma matching_rows_log_event [simp]:
  "matching_rows (log_event ev w) dps = matching_rows w dps"
  by (simp add: matching_rows_def)

lemma matching_rows_open_session [simp]:
  "matching_rows (open_session w) dps = matching_rows w dps"
  by (simp add: matching_rows_def)

lemma missing_field_mismatch:
  assumes "k \<in> set required_fields" and "map_of kvs k = None"
  shows "shape_mismatch (JDict kvs)"
  using assms
  by (auto simp: shape_mismatch_def required_fields_def field_def split: option.splits)

lemma status_code_mismatch: "shape_mismatch j \<Longrightarrow> status_code (InsightResponse j) = 500"
  by (cases j; auto simp: shape_mismatch_def split: option.splits sum.splits)

lemma analyze_image_malformed:
  assumes "generate_content E (ExtractionPrompt img) = Inr raw" and "json_loads E raw = Inr initial"
    and "insight_record initial dps" and "categories dps \<noteq> []"
    and "list_all string_category dps" and "list_all (storable E) dps"
    and "fresh_session w" and "matching_rows w dps \<noteq> []"
    and "generate_content E (second_prompt initial (matching_rows w dps)) = Inr text"
    and "json_loads E text = Inr malformed" and "shape_mismatch malformed"
  shows "status_code (fst (analyze_image E img w)) = 500"
proof -
  let ?w1 = "log_event (GenerateContent (ExtractionPrompt img)) w"
  have "get_validated_insights E initial ?w1 =
          (Inr malformed,
            world_after_store E ''general_metric'' dps
              (log_event (GenerateContent (second_prompt initial (matching_rows ?w1 dps)))
                 (log_event (DbQuery ''general_metric'' (categories dps)) ?w1)))"
    using assms(3-10) by (intro validator_refined) simp_all
  with assms(1,2,11) show ?thesis
    by (simp add: analyze_image_def analyze_graph_with_gemini_def Let_def status_code_mismatch)
qed

text \<open>
  \<^bold>\<open>C8\<close> (as amended). When the second Gateway call returns a text that parses to a value the
  response model rejects, every category is a string free of NUL characters, and every
  data point that has both keys has a category of at most 255 characters and a value that
  \<^verbatim>\<open>float\<close> and the \<^verbatim>\<open>Numeric\<close> column accept, the Validator (called with a fresh session)
  returns that value (the trace has no print of the fallback), and both analyze endpoints
  answer with status 500.
\<close>

theorem malformed_refinement_is_returned:
  assumes "insight_record initial dps" and "categories dps \<noteq> []"
    and "list_all string_category dps" and "list_all (storable E) dps"
    and "matching_rows w dps \<noteq> []"
    and "generate_content E (second_prompt initial (matching_rows w dps)) = Inr text"
    and "json_loads E text = Inr malformed" and "shape_mismatch malformed"
  shows "(fresh_session w \<longrightarrow>
           fst (get_validated_insights E initial w) = Inr malformed \<and>
           events (snd (get_validated_insights E initial w)) =
             events w @
             [DbQuery ''general_metric'' (categories dps),
              GenerateContent (second_prompt initial (matching_rows w dps))] @
             map DbAdd (instances_to_add E ''general_metric'' dps) @ [DbCommit]) \<and>
         (generate_content E (ExtractionPrompt img) = Inr raw \<and> json_loads E raw = Inr initial \<longrightarrow>
            (content_type = Some ct \<and> startswith ct ''image/'' \<and>
             image_open E image_content = Inr img \<longrightarrow>
               status_code (fst (analyze_uploaded_graph E content_type image_content w)) = 500) \<and>
            (decode_screen_capture E image_data = Inr img \<longrightarrow>
               status_code (fst (analyze_screen_capture E image_data w)) = 500))"
proof (intro conjI impI)
  assume f: "fresh_session w"
  show "fst (get_validated_insights E initial w) = Inr malformed"
    using assms f by (simp add: validator_refined)
  show "events (snd (get_validated_insights E initial w)) =
           events w @
           [DbQuery ''general_metric'' (categories dps),
            GenerateContent (second_prompt initial (matching_rows w dps))] @
           map DbAdd (instances_to_add E ''general_metric'' dps) @ [DbCommit]"
    using assms f by (simp add: validator_refined)
next
  assume first: "generate_content E (ExtractionPrompt img) = Inr raw \<and> json_loads E raw = Inr initial"
  then have g: "generate_content E (ExtractionPrompt img) = Inr raw"
    and j: "json_loads E raw = Inr initial" by simp_all
  have h: "matching_rows (open_session w) dps \<noteq> []" using assms(5) by simp
  have p: "generate_content E (second_prompt initial (matching_rows (open_session w) dps)) =
             Inr text"
    using assms(6) by simp
  have tail: "status_code (fst (analyze_image E img (open_session w))) = 500"
    by (rule analyze_image_malformed [OF g j assms(1-4) fresh_open_session h p assms(7,8)])
  {
    assume "content_type = Some ct \<and> startswith ct ''image/'' \<and> image_open E image_content = Inr img"
    then show "status_code (fst (analyze_uploaded_graph E content_type image_content w)) = 500"
      using tail by (simp add: analyze_uploaded_graph_image)
  }
  {
    assume "decode_screen_capture E image_data = Inr img"
    then show "status_code (fst (analyze_screen_capture E image_data w)) = 500"
      using tail by (simp add: analyze_screen_capture_image)
  }
qed

theorem malformed_refinement_is_returned_witness:
  "shape_mismatch no_summary \<and>
   matching_rows world_with_mixed_history jan_feb = [jan_row] \<and>
   fst (get_validated_insights
          (sample_env two_pass_gateway (parse_two (insights_with jan_feb) no_summary))
          (insights_with jan_feb) world_with_mixed_history) = Inr no_summary \<and>
   status_code (fst (analyze_uploaded_graph
          (sample_env two_pass_gateway (parse_two (insights_with jan_feb) no_summary))
          (Some ''image/png'') ''png'' world_with_mixed_history)) = 500 \<and>
   status_code (fst (analyze_screen_capture
          (sample_env two_pass_gateway (parse_two (insights_with jan_feb) no_summary))
          ''data:image/png;base64,png'' world_with_mixed_history)) = 500"
proof -
  let ?E = "sample_env two_pass_gateway (parse_two (insights_with jan_feb) no_summary)"
  have b: "categories jan_feb \<noteq> []" by (simp add: jan_feb_categories)
  have c: "matching_rows world_with_mixed_history jan_feb \<noteq> []"
    by (simp add: jan_feb_mixed_history)
  have d: "generate_content ?E
             (second_prompt (insights_with jan_feb) (matching_rows world_with_mixed_history jan_feb)) =
           Inr ''ok''"
    by (simp add: sample_env_def two_pass_gateway_def second_prompt_def)
  have e: "json_loads ?E ''ok'' = Inr no_summary"
    by (simp add: sample_env_def parse_two_def)
  have f: "shape_mismatch no_summary"
    unfolding no_summary_def
    by (rule missing_field_mismatch [of "''summary''"]) (simp_all add: required_fields_def)
  have h: "generate_content ?E (ExtractionPrompt (Image ''png'')) = Inr ''first'' \<and>
           json_loads ?E ''first'' = Inr (insights_with jan_feb)"
    by (simp add: sample_env_def two_pass_gateway_def parse_two_def)
  have i: "startswith ''image/png'' ''image/''" by (simp add: startswith_def)
  have j: "image_open ?E ''png'' = Inr (Image ''png'')" by (simp add: sample_env_def)
  have k: "decode_screen_capture ?E ''data:image/png;base64,png'' = Inr (Image ''png'')"
    by (simp add: decode_screen_capture_def sample_env_def)
  show ?thesis
    using f h i j k jan_feb_mixed_history fresh_samples(3)
      malformed_refinement_is_returned [OF jan_feb_record b jan_feb_strings jan_feb_storable
        c d e f, where img = "Image ''png''"
        and raw = "''first''" and content_type = "Some ''image/png''" and ct = "''image/png''"
        and image_content = "''png''" and image_data = "''data:image/png;base64,png''"]
    by simp
qed

text \<open>
  As stated, C8 fails: with a value \<open>2 ^ 1024\<close> among the data points the persistence helper
  raises after the malformed refinement was parsed, and the Validator raises instead of
  returning it.
\<close>

theorem malformed_refinement_raises:
  "shape_mismatch no_summary \<and>
   insight_record (insights_with jan_huge) jan_huge \<and>
   categories jan_huge = [JStr ''Jan''] \<and>
   matching_rows world_with_mixed_history jan_huge = [jan_row] \<and>
   generate_content (sample_env two_pass_gateway (parse_two (insights_with jan_huge) no_summary))
     (second_prompt (insights_with jan_huge) [jan_row]) = Inr ''ok'' \<and>
   json_loads (sample_env two_pass_gateway (parse_two (insights_with jan_huge) no_summary)) ''ok'' =
     Inr no_summary \<and>
   fst (get_validated_insights
          (sample_env two_pass_gateway (parse_two (insights_with jan_huge) no_summary))
          (insights_with jan_huge) world_with_mixed_history) = Inl OverflowError"
proof -
  have "shape_mismatch no_summary"
    unfolding no_summary_def
    by (rule missing_field_mismatch [of "''summary''"]) (simp_all add: required_fields_def)
  moreover have "fst (get_validated_insights
          (sample_env two_pass_gateway (parse_two (insights_with jan_huge) no_summary))
          (insights_with jan_huge) world_with_mixed_history) = Inl OverflowError"
    by (simp add: raise_defs sample_env_def two_pass_gateway_def parse_two_def jan_row_def
          other_metric_row_def mar_row_def)
  ultimately show ?thesis
    by (simp add: huge_history)
       (simp add: sample_env_def two_pass_gateway_def parse_two_def second_prompt_def)
qed

subsection \<open>The history listing\<close>

lemma most_recent_sorted:
  "sorted_wrt (\<lambda>a b. extracted_at b \<le> extracted_at a) (most_recent n rows)"
proof -
  have "sorted (map extracted_at (sort_key extracted_at rows))" by (rule sorted_sort_key)
  then have "sorted_wrt (\<lambda>a b. extracted_at a \<le> extracted_at b) (sort_key extracted_at rows)"
    by (simp add: sorted_wrt_map)
  then have "sorted_wrt (\<lambda>a b. extracted_at b \<le> extracted_at a) (rev (sort_key extracted_at rows))"
    by (simp add: sorted_wrt_rev)
  then show ?thesis
    unfolding most_recent_def by (rule sorted_wrt_take)
qed

lemma most_recent_length: "length (most_recent n rows) = min n (length rows)"
  by (simp add: most_recent_def min.commute)

lemma most_recent_subset: "set (most_recent n rows) \<subseteq> set rows"
proof -
  have "set (most_recent n rows) \<subseteq> set (rev (sort_key extracted_at rows))"
    unfolding most_recent_def by (rule set_take_subset)
  then show ?thesis by simp
qed

lemma most_recent_omitted:
  assumes "r \<in> set rows" and "r \<notin> set (most_recent n rows)" and "x \<in> set (most_recent n rows)"
  shows "extracted_at r \<le> extracted_at x"
proof -
  define d where "d = rev (sort_key extracted_at rows)"
  have "sorted (map extracted_at (sort_key extracted_at rows))" by (rule sorted_sort_key)
  then have "sorted_wrt (\<lambda>a b. extracted_at b \<le> extracted_at a) d"
    by (simp add: d_def sorted_wrt_map sorted_wrt_rev)
  then have "sorted_wrt (\<lambda>a b. extracted_at b \<le> extracted_at a) (take n d @ drop n d)" by simp
  then have cross: "\<forall>a\<in>set (take n d). \<forall>b\<in>set (drop n d). extracted_at b \<le> extracted_at a"
    by (simp only: sorted_wrt_append) blast
  have "r \<in> set d" using assms(1) by (simp add: d_def)
  then have "r \<in> set (take n d) \<union> set (drop n d)" by (simp only: set_append [symmetric] append_take_drop_id)
  with assms(2) have "r \<in> set (drop n d)" by (simp add: most_recent_def d_def)
  moreover have "x \<in> set (take n d)" using assms(3) by (simp add: most_recent_def d_def)
  ultimately show ?thesis using cross by blast
qed

text \<open>
  \<^bold>\<open>C9.\<close> The history endpoint returns one object per row of the 100 most recent rows: at
  most 100, most recent first, no omitted row more recent than a returned one; each object
  has exactly the keys \<^verbatim>\<open>id\<close>, \<^verbatim>\<open>metric_name\<close>, \<^verbatim>\<open>category\<close>, \<^verbatim>\<open>value\<close> (a float)
  and \<^verbatim>\<open>extracted_at\<close> (the \<^verbatim>\<open>isoformat()\<close> string of the timestamp); the table is
  not changed.
\<close>

theorem history_listing:
  "fst (get_historical_data E w) = Inr (map (history_object E) (most_recent 100 (table w))) \<and>
   length (most_recent 100 (table w)) = min 100 (length (table w)) \<and>
   sorted_wrt (\<lambda>a b. extracted_at b \<le> extracted_at a) (most_recent 100 (table w)) \<and>
   set (most_recent 100 (table w)) \<subseteq> set (table w) \<and>
   (\<forall>r\<in>set (table w). r \<notin> set (most_recent 100 (table w)) \<longrightarrow>
      (\<forall>x\<in>set (most_recent 100 (table w)). extracted_at r \<le> extracted_at x)) \<and>
   (\<forall>r. keys_of (history_object E r) =
          [''id'', ''metric_name'', ''category'', ''value'', ''extracted_at''] \<and>
        py_index (history_object E r) ''id'' = Inr (JInt (int (id' r))) \<and>
        py_index (history_object E r) ''metric_name'' = Inr (JStr (metric_name r)) \<and>
        py_index (history_object E r) ''category'' = Inr (JStr (category r)) \<and>
        py_index (history_object E r) ''value'' = Inr (JFloat (value' r)) \<and>
        py_index (history_object E r) ''extracted_at'' = Inr (JStr (isoformat E (extracted_at r)))) \<and>
   table (snd (get_historical_data E w)) = table w"
proof (intro conjI ballI impI allI)
  show "fst (get_historical_data E w) = Inr (map (history_object E) (most_recent 100 (table w)))"
    by (simp add: get_historical_data_def Let_def)
  show "table (snd (get_historical_data E w)) = table w"
    by (simp add: get_historical_data_def Let_def)
  show "length (most_recent 100 (table w)) = min 100 (length (table w))"
    by (rule most_recent_length)
  show "sorted_wrt (\<lambda>a b. extracted_at b \<le> extracted_at a) (most_recent 100 (table w))"
    by (rule most_recent_sorted)
  show "set (most_recent 100 (table w)) \<subseteq> set (table w)"
    by (rule most_recent_subset)
  show "extracted_at r \<le> extracted_at x"
    if "r \<in> set (table w)" "r \<notin> set (most_recent 100 (table w))"
       "x \<in> set (most_recent 100 (table w))" for r x
    using that by (rule most_recent_omitted)
qed (simp_all add: history_object_def)

theorem history_listing_witness:
  "fst (get_historical_data (sample_env gateway_down (parse_as JNull)) world_with_two_rows) =
     Inr [JDict [(''id'', JInt 2), (''metric_name'', JStr ''general_metric''),
                 (''category'', JStr ''Feb''), (''value'', JFloat (Finite 170)),
                 (''extracted_at'', JStr ''2024-01-01T00:00:00'')],
          JDict [(''id'', JInt 1), (''metric_name'', JStr ''general_metric''),
                 (''category'', JStr ''Jan''), (''value'', JFloat (Finite 100)),
                 (''extracted_at'', JStr ''2024-01-01T00:00:00'')]] \<and>
   most_recent 100 (table world_with_two_rows) = [feb_row, jan_row] \<and>
   table (snd (get_historical_data (sample_env gateway_down (parse_as JNull)) world_with_two_rows)) =
     [jan_row, feb_row]"
proof -
  have m: "most_recent 100 (table world_with_two_rows) = [feb_row, jan_row]"
    by (simp add: most_recent_def world_with_two_rows_def jan_row_def feb_row_def)
  show ?thesis
    using history_listing [of "sample_env gateway_down (parse_as JNull)" world_with_two_rows]
    by (simp add: m) (simp add: history_object_def jan_row_def feb_row_def sample_env_def
          world_with_two_rows_def)
qed

subsection \<open>Round trip\<close>












end
